theory Spec2Isabelle
  imports Main "HOL-Library.Word" "HOL-Library.AList"
begin

section \<open>Vocabulary: reflect kinds, datatypes, Go values (enums.go)\<close>

type_synonym u32 = "32 word"
type_synonym u64 = "64 word"

text \<open>
  The kinds of Go's \<open>reflect.Kind\<close>, in the order of the standard library. The name
  of each kind is the Go name with the prefix \<open>K\<close>, since \<open>Int\<close>, \<open>Map\<close>,
  \<open>String\<close> and others are names of the logic's own library.
\<close>

datatype Kind =
    KInvalid | KBool
  | KInt | KInt8 | KInt16 | KInt32 | KInt64
  | KUint | KUint8 | KUint16 | KUint32 | KUint64 | KUintptr
  | KFloat32 | KFloat64 | KComplex64 | KComplex128
  | KArray | KChan | KFunc | KInterface | KMap | KPointer | KSlice | KString
  | KStruct | KUnsafePointer

text \<open>
  \<open>Datatype\<close> of enums.go. The thirteen \<open>TILEDB_DATETIME_*\<close> values are named by
  query.go (\<open>GetRange\<close>, \<open>Buffer\<close>) and declared by neither source file; they are
  constructors here so that the switches of query.go can be written as they are.
\<close>

datatype Datatype =
    TILEDB_INT32 | TILEDB_INT64 | TILEDB_FLOAT32 | TILEDB_FLOAT64 | TILEDB_CHAR
  | TILEDB_INT8 | TILEDB_UINT8 | TILEDB_INT16 | TILEDB_UINT16 | TILEDB_UINT32
  | TILEDB_UINT64 | TILEDB_STRING_ASCII | TILEDB_STRING_UTF8 | TILEDB_STRING_UTF16
  | TILEDB_STRING_UTF32 | TILEDB_STRING_UCS2 | TILEDB_STRING_UCS4 | TILEDB_ANY
  | TILEDB_DATETIME_YEAR | TILEDB_DATETIME_MONTH | TILEDB_DATETIME_WEEK
  | TILEDB_DATETIME_DAY | TILEDB_DATETIME_HR | TILEDB_DATETIME_MIN
  | TILEDB_DATETIME_SEC | TILEDB_DATETIME_MS | TILEDB_DATETIME_US
  | TILEDB_DATETIME_NS | TILEDB_DATETIME_PS | TILEDB_DATETIME_FS
  | TILEDB_DATETIME_AS

text \<open>
  \<open>Datatype.ReflectKind\<close> (enums.go, lines 98-137). \<open>TILEDB_CHAR\<close> and the
  datetime values have no case of their own and reach the \<open>default\<close>.
\<close>

fun ReflectKind :: "Datatype \<Rightarrow> Kind" where
  "ReflectKind TILEDB_INT8 = KInt8"
| "ReflectKind TILEDB_INT16 = KInt16"
| "ReflectKind TILEDB_INT32 = KInt32"
| "ReflectKind TILEDB_INT64 = KInt64"
| "ReflectKind TILEDB_UINT8 = KUint8"
| "ReflectKind TILEDB_UINT16 = KUint16"
| "ReflectKind TILEDB_UINT32 = KUint32"
| "ReflectKind TILEDB_UINT64 = KUint64"
| "ReflectKind TILEDB_FLOAT32 = KFloat32"
| "ReflectKind TILEDB_FLOAT64 = KFloat64"
| "ReflectKind TILEDB_STRING_ASCII = KUint8"
| "ReflectKind TILEDB_STRING_UTF8 = KUint8"
| "ReflectKind TILEDB_STRING_UTF16 = KUint16"
| "ReflectKind TILEDB_STRING_UTF32 = KUint32"
| "ReflectKind TILEDB_STRING_UCS2 = KUint16"
| "ReflectKind TILEDB_STRING_UCS4 = KUint32"
| "ReflectKind TILEDB_ANY = KInterface"
| "ReflectKind _ = KInterface"

text \<open>
  A Go value behind an \<open>interface{}\<close>, as far as query.go looks at it: \<open>nil\<close>, a
  slice with its element kind and its elements, or a value of any other kind. An element
  or scalar is the number that its memory holds, read little-endian and unsigned (a float
  is its bit pattern). Values are of unnamed types, so a type assertion such as
  \<open>buffer.([]int32)\<close> succeeds exactly when the kinds agree.
\<close>

datatype GoValue =
    GoNil
  | GoScalar Kind nat
  | GoSlice Kind "nat list"

text \<open>\<open>reflect.ValueOf(v).Kind()\<close>: the zero \<open>Value\<close> of \<open>nil\<close> has kind \<open>Invalid\<close>.\<close>

fun kindOf :: "GoValue \<Rightarrow> Kind" where
  "kindOf GoNil = KInvalid"
| "kindOf (GoScalar k _) = k"
| "kindOf (GoSlice _ _) = KSlice"

text \<open>
  \<open>unsafe.Sizeof\<close> of the element types that the switches of \<open>SetBuffer\<close> and
  \<open>SetBufferVar\<close> name; \<open>None\<close> is their \<open>default\<close>. \<open>int\<close> and \<open>uint\<close> are
  eight bytes wide on the 64-bit platforms the bindings build on.
\<close>

fun sizeofKind :: "Kind \<Rightarrow> u64 option" where
  "sizeofKind KInt = Some 8"
| "sizeofKind KInt8 = Some 1"
| "sizeofKind KInt16 = Some 2"
| "sizeofKind KInt32 = Some 4"
| "sizeofKind KInt64 = Some 8"
| "sizeofKind KUint = Some 8"
| "sizeofKind KUint8 = Some 1"
| "sizeofKind KUint16 = Some 2"
| "sizeofKind KUint32 = Some 4"
| "sizeofKind KUint64 = Some 8"
| "sizeofKind KFloat32 = Some 4"
| "sizeofKind KFloat64 = Some 8"
| "sizeofKind _ = None"

section \<open>Errors\<close>

text \<open>
  One constructor for each family of \<open>fmt.Errorf\<close> messages of query.go, named after
  what failed; \<open>Panic\<close> is a run-time panic of the Go program (a nil dereference, an
  index out of range, a write to a nil map, a failed type assertion, a division by zero).
\<close>

datatype Error =
    NotASlice Kind            \<comment> \<open>"... passed must be a slice that is pre-allocated"\<close>
  | SchemaUnavailable         \<comment> \<open>\<open>q.array.Schema()\<close> failed\<close>
  | DomainUnavailable         \<comment> \<open>\<open>schema.Domain()\<close> failed\<close>
  | DomainTypeUnavailable     \<comment> \<open>\<open>domain.Type()\<close> failed\<close>
  | HasDimensionFailed        \<comment> \<open>\<open>domain.HasDimension\<close> failed\<close>
  | DimensionNotFound         \<comment> \<open>\<open>DimensionFromName\<close> or \<open>DimensionFromIndex\<close> failed\<close>
  | DimensionTypeUnavailable  \<comment> \<open>\<open>dimension.Type()\<close> failed\<close>
  | CellValNumUnavailable     \<comment> \<open>\<open>dimension.CellValNum()\<close> failed\<close>
  | AttributeNotFound         \<comment> \<open>\<open>schema.AttributeFromName\<close> failed\<close>
  | AttributeTypeUnavailable  \<comment> \<open>\<open>attribute.Type()\<close> failed\<close>
  | TypeMismatch Kind Kind    \<comment> \<open>"... do not have the same data types", "... must be the same as the type"\<close>
  | EmptyBuffer               \<comment> \<open>"Buffer has no length, ..."\<close>
  | EmptyOffsets              \<comment> \<open>"Offset slice has no length, ..."\<close>
  | UnrecognizedType Kind     \<comment> \<open>"Unrecognized buffer type passed", "Unrecognized type of range component passed"\<close>
  | UnsupportedType Kind      \<comment> \<open>"Unsupported type of range component passed"\<close>
  | UnrecognizedDatatype Datatype \<comment> \<open>"Unrecognized dimension type", "Unrecognized attribute type"\<close>
  | EngineFailure             \<comment> \<open>the engine call did not return \<open>TILEDB_OK\<close>\<close>
  | Panic

section \<open>The collaborators: schema accessors and engine\<close>

text \<open>
  The schema objects that query.go reads (\<open>Array\<close>, \<open>ArraySchema\<close>, \<open>Domain\<close>,
  \<open>Dimension\<close>, \<open>Attribute\<close>) are declared outside query.go. Each accessor that
  query.go calls is a field here; an accessor that returns an error in Go returns
  \<open>None\<close>. Nothing is assumed about how the accessors agree with each other, as
  query.go assumes nothing either.
\<close>

record Dimension =
  dimensionType :: "Datatype option"      \<comment> \<open>\<open>dimension.Type()\<close>\<close>
  dimensionCellValNum :: "nat option"     \<comment> \<open>\<open>dimension.CellValNum()\<close>\<close>

record Attribute =
  attributeType :: "Datatype option"      \<comment> \<open>\<open>attribute.Type()\<close>\<close>

record Domain =
  domainType :: "Datatype option"                       \<comment> \<open>\<open>domain.Type()\<close>\<close>
  hasDimension :: "string \<Rightarrow> bool option"             \<comment> \<open>\<open>domain.HasDimension(name)\<close>\<close>
  dimensionFromName :: "string \<Rightarrow> Dimension option"   \<comment> \<open>\<open>domain.DimensionFromName(name)\<close>\<close>
  dimensionFromIndex :: "nat \<Rightarrow> Dimension option"     \<comment> \<open>\<open>domain.DimensionFromIndex(i)\<close>\<close>

record ArraySchema =
  schemaDomain :: "Domain option"                        \<comment> \<open>\<open>schema.Domain()\<close>\<close>
  attributeFromName :: "string \<Rightarrow> Attribute option"   \<comment> \<open>\<open>schema.AttributeFromName(name)\<close>\<close>

text \<open>The calls that query.go makes into the engine, with the arguments it passes by value.\<close>

datatype EngineCall =
    tiledb_query_set_buffer string u64
  | tiledb_query_set_buffer_var string u64 u64
  | tiledb_query_add_range u32 nat nat
  | tiledb_query_add_range_var u32 "nat list" u64 "nat list" u64
  | tiledb_query_get_range u32 u64
  | tiledb_query_get_range_var_size u32 u64
  | tiledb_query_get_range_var u32 u64
  | tiledb_query_get_range_num u32
  | tiledb_query_get_buffer string
  | tiledb_query_get_buffer_var string

text \<open>
  Everything a call of a \<open>Query\<close> method reads from outside the query: the schema of
  its array, the constants and the \<open>Datatype.Size\<close> table that query.go uses and does not
  declare, and the engine's answers. \<open>engineOK\<close> tells for each engine call whether
  the engine returns \<open>TILEDB_OK\<close>; the byte-count pointers that
  \<open>tiledb_query_get_buffer\<close> and \<open>tiledb_query_get_buffer_var\<close> hand back are
  \<open>None\<close> when null and \<open>Some\<close> of the count they point to otherwise.
\<close>

record World =
  arraySchema :: "ArraySchema option"            \<comment> \<open>\<open>q.array.Schema()\<close>\<close>
  TILEDB_COORDS :: string                        \<comment> \<open>the name of the coordinate field\<close>
  TILEDB_VAR_NUM :: nat                          \<comment> \<open>the cell value number of a variable-size field\<close>
  Size :: "Datatype \<Rightarrow> u64"                    \<comment> \<open>\<open>Datatype.Size()\<close>\<close>
  engineOK :: "EngineCall \<Rightarrow> bool"
  bufferSizePtr :: "string \<Rightarrow> u64 option"       \<comment> \<open>\<open>cbufferSize\<close> of \<open>tiledb_query_get_buffer\<close>\<close>
  bufferVarSizePtrs :: "string \<Rightarrow> u64 option \<times> u64 option"
    \<comment> \<open>\<open>(coffsetsSize, cbufferSize)\<close> of \<open>tiledb_query_get_buffer_var\<close>\<close>

section \<open>The query\<close>

text \<open>A range as the engine keeps it: two scalars, or two byte sequences.\<close>

datatype EngineRange =
    FixedRange nat nat
  | VarRange "nat list" "nat list"

text \<open>
  \<open>Query\<close> of query.go (lines 21-29), without its mutex and its back-references, which
  are in \<open>World\<close>. \<open>tiledbQuery\<close> tells whether the handle is non-nil. A pointer
  \<open>*uint64\<close> of \<open>resultBufferElements\<close> is the count it points to, \<open>None\<close> when
  nil; the map itself is \<open>None\<close> when nil, and an association list with distinct keys
  otherwise, in the order in which \<open>range\<close> visits it.

  The last two fields are the state that the engine keeps behind the handle: the ranges
  registered for each dimension index, in the order they were added, and the number of
  times the engine released a handle of this query.
\<close>

record Query =
  tiledbQuery :: bool
  buffers :: "GoValue list"
  resultBufferElements :: "(string \<times> (u64 option \<times> u64)) list option"
  engineRanges :: "u32 \<Rightarrow> EngineRange list"
  engineReleases :: nat

text \<open>
  Modelled from the spec: \<open>tiledb_query_free\<close> is the engine's, not part of these sources.
  Destroying a query "releases the execution handle"; \<open>Free\<close> passes the address of
  its handle field, and the engine releases the handle and stores nil through that address.
\<close>

definition tiledb_query_free :: "Query \<Rightarrow> Query" where
  "tiledb_query_free q = q\<lparr>tiledbQuery := False, engineReleases := Suc (engineReleases q)\<rparr>"

text \<open>\<open>Query.Free\<close> (query.go, lines 84-92).\<close>

definition Free :: "Query \<Rightarrow> Query" where
  "Free q =
     (let q1 = q\<lparr>buffers := [], resultBufferElements := None\<rparr>
      in if tiledbQuery q1 then tiledb_query_free q1 else q1)"

section \<open>Resolving a field name to its datatype\<close>

text \<open>
  The block that \<open>SetBufferVar\<close> (query.go, lines 1024-1048) and the loop of
  \<open>ResultBufferElements\<close> (lines 1264-1289) run for a name, and that is the
  \<open>else\<close> branch of the coordinate test in \<open>SetBuffer\<close>, \<open>Buffer\<close>,
  \<open>BufferSizeVar\<close> and \<open>BufferSize\<close>: ask the domain whether the name is a
  dimension; if so take the dimension's type, otherwise the type of the attribute of that
  name. The methods differ in the text of their messages only.
\<close>

definition dimensionOrAttributeType :: "ArraySchema \<Rightarrow> Domain \<Rightarrow> string \<Rightarrow> Error + Datatype" where
  "dimensionOrAttributeType schema domain attributeOrDimension =
     (case hasDimension domain attributeOrDimension of
        None \<Rightarrow> Inl HasDimensionFailed
      | Some hasDim \<Rightarrow>
          if hasDim then
            (case dimensionFromName domain attributeOrDimension of
               None \<Rightarrow> Inl DimensionNotFound
             | Some dimension \<Rightarrow>
                 (case dimensionType dimension of
                    None \<Rightarrow> Inl DimensionTypeUnavailable
                  | Some t \<Rightarrow> Inr t))
          else
            (case attributeFromName schema attributeOrDimension of
               None \<Rightarrow> Inl AttributeNotFound
             | Some attribute \<Rightarrow>
                 (case attributeType attribute of
                    None \<Rightarrow> Inl AttributeTypeUnavailable
                  | Some t \<Rightarrow> Inr t)))"

text \<open>
  The head of \<open>SetBuffer\<close> (lines 222-273), \<open>Buffer\<close> (817-862), \<open>BufferSizeVar\<close>
  (1502-1547) and \<open>BufferSize\<close> (1584-1629): schema, domain, then the coordinate
  test, then the block above.
\<close>

definition fieldType :: "World \<Rightarrow> string \<Rightarrow> Error + Datatype" where
  "fieldType w attributeOrDimension =
     (case arraySchema w of
        None \<Rightarrow> Inl SchemaUnavailable
      | Some schema \<Rightarrow>
          (case schemaDomain schema of
             None \<Rightarrow> Inl DomainUnavailable
           | Some domain \<Rightarrow>
               if attributeOrDimension = TILEDB_COORDS w then
                 (case domainType domain of
                    None \<Rightarrow> Inl DomainTypeUnavailable
                  | Some t \<Rightarrow> Inr t)
               else dimensionOrAttributeType schema domain attributeOrDimension))"

text \<open>The head of \<open>SetBufferVar\<close> (lines 1008-1048): no coordinate test.\<close>

definition fieldTypeVar :: "World \<Rightarrow> string \<Rightarrow> Error + Datatype" where
  "fieldTypeVar w attributeOrDimension =
     (case arraySchema w of
        None \<Rightarrow> Inl SchemaUnavailable
      | Some schema \<Rightarrow>
          (case schemaDomain schema of
             None \<Rightarrow> Inl DomainUnavailable
           | Some domain \<Rightarrow> dimensionOrAttributeType schema domain attributeOrDimension))"

text \<open>
  The resolution order as the specification words it: "sentinel check first, then
  dimension-name lookup, then attribute-name lookup; first match wins, an unmatched name
  is an error". It is stated on the accessors alone, with \<open>None\<close> for every error, to
  be compared with what \<open>SetBuffer\<close> and \<open>Buffer\<close> do.
\<close>

definition resolutionOrder :: "World \<Rightarrow> string \<Rightarrow> Datatype option" where
  "resolutionOrder w name =
     Option.bind (arraySchema w) (\<lambda>schema.
     Option.bind (schemaDomain schema) (\<lambda>domain.
       if name = TILEDB_COORDS w then domainType domain
       else if hasDimension domain name = Some True
         then Option.bind (dimensionFromName domain name) dimensionType
       else if hasDimension domain name = Some False
         then Option.bind (attributeFromName schema name) attributeType
       else None))"

section \<open>Binding buffers\<close>

text \<open>
  \<open>Query.SetBufferUnsafe\<close> (query.go, lines 188-207). The raw address is not part of
  the model. A method returns the query as it has left it together with its Go result;
  the pointer \<open>&bufferSize\<close> that is returned is the one stored in the table.
\<close>

definition SetBufferUnsafe :: "World \<Rightarrow> Query \<Rightarrow> string \<Rightarrow> u64 \<Rightarrow> Query \<times> (Error + u64)" where
  "SetBufferUnsafe w q attribute bufferSize =
     (if \<not> engineOK w (tiledb_query_set_buffer attribute bufferSize)
      then (q, Inl EngineFailure)
      else (case resultBufferElements q of
              None \<Rightarrow> (q, Inl Panic)
            | Some m \<Rightarrow>
                (q\<lparr>resultBufferElements := Some (AList.update attribute (None, bufferSize) m)\<rparr>,
                 Inr bufferSize)))"

text \<open>
  \<open>Query.SetBuffer\<close> (query.go, lines 211-425). The twelve arms of its switch differ in
  the element type only: each multiplies the length by \<open>unsafe.Sizeof\<close> of the type,
  appends the slice to \<open>q.buffers\<close> and takes the address of its first element.
  \<open>Len()\<close> is an \<open>int\<close>, so \<open>uint64(Len())\<close> is zero exactly when the length
  is; the product with the element size is taken in \<open>uint64\<close>. Writing to the nil map
  of a freed query panics.
\<close>

definition SetBuffer :: "World \<Rightarrow> Query \<Rightarrow> string \<Rightarrow> GoValue \<Rightarrow> Query \<times> (Error + u64)" where
  "SetBuffer w q attributeOrDimension buffer =
     (case buffer of
        GoSlice bufferType elems \<Rightarrow>
          (case fieldType w attributeOrDimension of
             Inl err \<Rightarrow> (q, Inl err)
           | Inr attributeOrDimensionType \<Rightarrow>
               if ReflectKind attributeOrDimensionType \<noteq> bufferType
               then (q, Inl (TypeMismatch bufferType (ReflectKind attributeOrDimensionType)))
               else if length elems = 0 then (q, Inl EmptyBuffer)
               else
                 (case sizeofKind bufferType of
                    None \<Rightarrow> (q, Inl (UnrecognizedType bufferType))
                  | Some sz \<Rightarrow>
                      let bufferSize = of_nat (length elems) * sz;
                          q1 = q\<lparr>buffers := buffers q @ [buffer]\<rparr>
                      in if \<not> engineOK w (tiledb_query_set_buffer attributeOrDimension bufferSize)
                         then (q1, Inl EngineFailure)
                         else
                           (case resultBufferElements q1 of
                              None \<Rightarrow> (q1, Inl Panic)
                            | Some m \<Rightarrow>
                                (q1\<lparr>resultBufferElements :=
                                      Some (AList.update attributeOrDimension (None, bufferSize) m)\<rparr>,
                                 Inr bufferSize))))
      | _ \<Rightarrow> (q, Inl (NotASlice (kindOf buffer))))"

text \<open>\<open>Query.SetCoordinates\<close> (query.go, lines 1762-1764).\<close>

definition SetCoordinates :: "World \<Rightarrow> Query \<Rightarrow> GoValue \<Rightarrow> Query \<times> (Error + u64)" where
  "SetCoordinates w q coordinates = SetBuffer w q (TILEDB_COORDS w) coordinates"

text \<open>\<open>Query.SetBufferVarUnsafe\<close> (query.go, lines 975-995).\<close>

definition SetBufferVarUnsafe ::
  "World \<Rightarrow> Query \<Rightarrow> string \<Rightarrow> u64 \<Rightarrow> u64 \<Rightarrow> Query \<times> (Error + u64 \<times> u64)" where
  "SetBufferVarUnsafe w q attribute offsetSize bufferSize =
     (if \<not> engineOK w (tiledb_query_set_buffer_var attribute offsetSize bufferSize)
      then (q, Inl EngineFailure)
      else (case resultBufferElements q of
              None \<Rightarrow> (q, Inl Panic)
            | Some m \<Rightarrow>
                (q\<lparr>resultBufferElements :=
                     Some (AList.update attribute (Some offsetSize, bufferSize) m)\<rparr>,
                 Inr (offsetSize, bufferSize))))"

text \<open>
  \<open>Query.SetBufferVar\<close> (query.go, lines 999-1220). The offsets are a \<open>[]uint64\<close>;
  they are appended to \<open>q.buffers\<close> before the switch on the element kind of the data,
  whose \<open>default\<close> returns.
\<close>

definition SetBufferVar ::
  "World \<Rightarrow> Query \<Rightarrow> string \<Rightarrow> nat list \<Rightarrow> GoValue \<Rightarrow> Query \<times> (Error + u64 \<times> u64)" where
  "SetBufferVar w q attributeOrDimension offset buffer =
     (case buffer of
        GoSlice bufferType elems \<Rightarrow>
          (case fieldTypeVar w attributeOrDimension of
             Inl err \<Rightarrow> (q, Inl err)
           | Inr attributeOrDimensionType \<Rightarrow>
               if ReflectKind attributeOrDimensionType \<noteq> bufferType
               then (q, Inl (TypeMismatch bufferType (ReflectKind attributeOrDimensionType)))
               else if length elems = 0 then (q, Inl EmptyBuffer)
               else
                 let offsetSize = (of_nat (length offset) :: u64) * 8
                 in if offsetSize = 0 then (q, Inl EmptyOffsets)
                    else
                      let q1 = q\<lparr>buffers := buffers q @ [GoSlice KUint64 offset]\<rparr>
                      in (case sizeofKind bufferType of
                            None \<Rightarrow> (q1, Inl (UnrecognizedType bufferType))
                          | Some sz \<Rightarrow>
                              let bufferSize = of_nat (length elems) * sz;
                                  q2 = q1\<lparr>buffers := buffers q1 @ [buffer]\<rparr>
                              in if \<not> engineOK w (tiledb_query_set_buffer_var
                                                      attributeOrDimension offsetSize bufferSize)
                                 then (q2, Inl EngineFailure)
                                 else
                                   (case resultBufferElements q2 of
                                      None \<Rightarrow> (q2, Inl Panic)
                                    | Some m \<Rightarrow>
                                        (q2\<lparr>resultBufferElements :=
                                              Some (AList.update attributeOrDimension
                                                      (Some offsetSize, bufferSize) m)\<rparr>,
                                         Inr (offsetSize, bufferSize)))))
      | _ \<Rightarrow> (q, Inl (NotASlice (kindOf buffer))))"

text \<open>
  Modelled from the spec: \<open>widthOf\<close> of the type registry (\<open>Datatype.Size\<close>, which is
  not part of these sources): "each mapped to a fixed byte width", an integer or float "of width N",
  a string by the width of its code unit, as the comments of enums.go name the values
  ("32-bit signed integer", "UTF-16 string"); the datetime values "share representation"
  with the 64-bit signed integer; \<open>TILEDB_ANY\<close> "has no fixed width".
\<close>

fun widthOf :: "Datatype \<Rightarrow> nat option" where
  "widthOf TILEDB_INT32 = Some 4"
| "widthOf TILEDB_INT64 = Some 8"
| "widthOf TILEDB_FLOAT32 = Some 4"
| "widthOf TILEDB_FLOAT64 = Some 8"
| "widthOf TILEDB_CHAR = Some 1"
| "widthOf TILEDB_INT8 = Some 1"
| "widthOf TILEDB_UINT8 = Some 1"
| "widthOf TILEDB_INT16 = Some 2"
| "widthOf TILEDB_UINT16 = Some 2"
| "widthOf TILEDB_UINT32 = Some 4"
| "widthOf TILEDB_UINT64 = Some 8"
| "widthOf TILEDB_STRING_ASCII = Some 1"
| "widthOf TILEDB_STRING_UTF8 = Some 1"
| "widthOf TILEDB_STRING_UTF16 = Some 2"
| "widthOf TILEDB_STRING_UTF32 = Some 4"
| "widthOf TILEDB_STRING_UCS2 = Some 2"
| "widthOf TILEDB_STRING_UCS4 = Some 4"
| "widthOf TILEDB_ANY = None"
| "widthOf _ = Some 8"

section \<open>Ranges\<close>

text \<open>The twelve kinds that the switches of \<open>AddRange\<close> and \<open>AddRangeVar\<close> name.\<close>

fun numericKind :: "Kind \<Rightarrow> bool" where
  "numericKind KInt = True"
| "numericKind KInt8 = True"
| "numericKind KInt16 = True"
| "numericKind KInt32 = True"
| "numericKind KInt64 = True"
| "numericKind KUint = True"
| "numericKind KUint8 = True"
| "numericKind KUint16 = True"
| "numericKind KUint32 = True"
| "numericKind KUint64 = True"
| "numericKind KFloat32 = True"
| "numericKind KFloat64 = True"
| "numericKind _ = False"

text \<open>
  Modelled from the spec: the engine's range store (\<open>tiledb_query_add_range\<close>,
  \<open>tiledb_query_add_range_var\<close>, \<open>tiledb_query_get_range_num\<close>,
  \<open>tiledb_query_get_range\<close>, \<open>tiledb_query_get_range_var_size\<close> and
  \<open>tiledb_query_get_range_var\<close> are the engine's, not part of these sources). "Ranges
  accumulate per dimension (multiple disjoint ranges per dimension index are legal); order
  of addition is preserved and is the order returned by lookup-by-index"; the range count
  is the "number of ranges currently registered on that dimension". A call that the
  engine does not answer with \<open>TILEDB_OK\<close> changes nothing and returns nothing; which
  calls those are is \<open>engineOK\<close>, but a lookup past the last range, or of a range of the
  other form, is never answered.
\<close>

definition engine_add_range :: "World \<Rightarrow> Query \<Rightarrow> EngineCall \<Rightarrow> u32 \<Rightarrow> EngineRange \<Rightarrow> Query option" where
  "engine_add_range w q call dimIdx r =
     (if engineOK w call
      then Some (q\<lparr>engineRanges := (engineRanges q)(dimIdx := engineRanges q dimIdx @ [r])\<rparr>)
      else None)"

definition engine_get_range_num :: "World \<Rightarrow> Query \<Rightarrow> u32 \<Rightarrow> u64 option" where
  "engine_get_range_num w q dimIdx =
     (if engineOK w (tiledb_query_get_range_num dimIdx)
      then Some (of_nat (length (engineRanges q dimIdx)))
      else None)"

definition engine_lookup_range :: "World \<Rightarrow> Query \<Rightarrow> EngineCall \<Rightarrow> u32 \<Rightarrow> u64 \<Rightarrow> EngineRange option" where
  "engine_lookup_range w q call dimIdx rangeNum =
     (if engineOK w call \<and> unat rangeNum < length (engineRanges q dimIdx)
      then Some (engineRanges q dimIdx ! unat rangeNum)
      else None)"

definition engine_get_range :: "World \<Rightarrow> Query \<Rightarrow> u32 \<Rightarrow> u64 \<Rightarrow> (nat \<times> nat) option" where
  "engine_get_range w q dimIdx rangeNum =
     (case engine_lookup_range w q (tiledb_query_get_range dimIdx rangeNum) dimIdx rangeNum of
        Some (FixedRange s e) \<Rightarrow> Some (s, e)
      | _ \<Rightarrow> None)"

definition engine_get_range_var_size :: "World \<Rightarrow> Query \<Rightarrow> u32 \<Rightarrow> u64 \<Rightarrow> (u64 \<times> u64) option" where
  "engine_get_range_var_size w q dimIdx rangeNum =
     (case engine_lookup_range w q (tiledb_query_get_range_var_size dimIdx rangeNum) dimIdx rangeNum of
        Some (VarRange s e) \<Rightarrow> Some (of_nat (length s), of_nat (length e))
      | _ \<Rightarrow> None)"

definition engine_get_range_var :: "World \<Rightarrow> Query \<Rightarrow> u32 \<Rightarrow> u64 \<Rightarrow> (nat list \<times> nat list) option" where
  "engine_get_range_var w q dimIdx rangeNum =
     (case engine_lookup_range w q (tiledb_query_get_range_var dimIdx rangeNum) dimIdx rangeNum of
        Some (VarRange s e) \<Rightarrow> Some (s, e)
      | _ \<Rightarrow> None)"

text \<open>
  \<open>Query.AddRange\<close> (query.go, lines 431-523). \<open>reflect.TypeOf(nil)\<close> is nil and its
  \<open>Kind()\<close> panics. The twelve arms of the switch assert both components to the type
  of the first and take their addresses; the schema is not consulted.
\<close>

definition AddRange :: "World \<Rightarrow> Query \<Rightarrow> u32 \<Rightarrow> GoValue \<Rightarrow> GoValue \<Rightarrow> Query \<times> Error option" where
  "AddRange w q dimIdx start end' =
     (if kindOf start \<noteq> kindOf end'
      then (q, Some (TypeMismatch (kindOf start) (kindOf end')))
      else
        (case start of
           GoNil \<Rightarrow> (q, Some Panic)
         | GoSlice _ _ \<Rightarrow> (q, Some (UnrecognizedType KSlice))
         | GoScalar startType tStart \<Rightarrow>
             if numericKind startType then
               (case end' of
                  GoScalar _ tEnd \<Rightarrow>
                    (case engine_add_range w q (tiledb_query_add_range dimIdx tStart tEnd)
                            dimIdx (FixedRange tStart tEnd) of
                       None \<Rightarrow> (q, Some EngineFailure)
                     | Some q' \<Rightarrow> (q', None))
                | _ \<Rightarrow> (q, Some Panic))
             else (q, Some (UnrecognizedType startType))))"

text \<open>
  \<open>Query.AddRangeVar\<close> (query.go, lines 527-604). In the \<open>Uint8\<close> arm the assertion
  \<open>end.([]uint8)\<close> panics for an end of another element kind, and \<open>tStart[0]\<close>,
  \<open>tEnd[0]\<close> panic for an empty slice.
\<close>

definition AddRangeVar :: "World \<Rightarrow> Query \<Rightarrow> u32 \<Rightarrow> GoValue \<Rightarrow> GoValue \<Rightarrow> Query \<times> Error option" where
  "AddRangeVar w q dimIdx start end' =
     (case start of
        GoSlice startType tStart \<Rightarrow>
          (case end' of
             GoSlice endType tEnd \<Rightarrow>
               let startSize = (of_nat (length tStart) :: u64);
                   endSize = (of_nat (length tEnd) :: u64)
               in if startType = KUint8 then
                    if endType \<noteq> KUint8 then (q, Some Panic)
                    else if tStart = [] \<or> tEnd = [] then (q, Some Panic)
                    else
                      (case engine_add_range w q
                              (tiledb_query_add_range_var dimIdx tStart startSize tEnd endSize)
                              dimIdx (VarRange tStart tEnd) of
                         None \<Rightarrow> (q, Some EngineFailure)
                       | Some q' \<Rightarrow> (q', None))
                  else if numericKind startType then (q, Some (UnsupportedType startType))
                  else (q, Some (UnrecognizedType startType))
           | _ \<Rightarrow> (q, Some (NotASlice (kindOf end'))))
      | _ \<Rightarrow> (q, Some (NotASlice (kindOf start))))"

text \<open>
  The switch of \<open>GetRange\<close> on the dimension's datatype (lines 683-720): the Go type
  that the two pointers are read at, with its width in bytes; \<open>None\<close> is the
  \<open>default\<close>.
\<close>

fun GetRange_type :: "Datatype \<Rightarrow> (Kind \<times> nat) option" where
  "GetRange_type TILEDB_INT8 = Some (KInt8, 1)"
| "GetRange_type TILEDB_INT16 = Some (KInt16, 2)"
| "GetRange_type TILEDB_INT32 = Some (KInt32, 4)"
| "GetRange_type TILEDB_UINT8 = Some (KUint8, 1)"
| "GetRange_type TILEDB_UINT16 = Some (KUint16, 2)"
| "GetRange_type TILEDB_UINT32 = Some (KUint32, 4)"
| "GetRange_type TILEDB_UINT64 = Some (KUint64, 8)"
| "GetRange_type TILEDB_FLOAT32 = Some (KFloat32, 4)"
| "GetRange_type TILEDB_FLOAT64 = Some (KFloat64, 8)"
| "GetRange_type TILEDB_STRING_ASCII = Some (KUint8, 1)"
| "GetRange_type TILEDB_CHAR = None"
| "GetRange_type TILEDB_STRING_UTF8 = None"
| "GetRange_type TILEDB_STRING_UTF16 = None"
| "GetRange_type TILEDB_STRING_UTF32 = None"
| "GetRange_type TILEDB_STRING_UCS2 = None"
| "GetRange_type TILEDB_STRING_UCS4 = None"
| "GetRange_type TILEDB_ANY = None"
| "GetRange_type _ = Some (KInt64, 8)"

text \<open>Reading a scalar of \<open>n\<close> bytes at an address whose memory holds \<open>v\<close>.\<close>

definition readScalar :: "Kind \<times> nat \<Rightarrow> nat \<Rightarrow> GoValue" where
  "readScalar t v = GoScalar (fst t) (v mod 2 ^ (8 * snd t))"

text \<open>
  \<open>Query.GetRange\<close> (query.go, lines 610-725). For a variable-size dimension it makes
  two byte slices of the sizes the engine reports and passes the addresses of their first
  elements, which panics for a size of zero.
\<close>

definition GetRange :: "World \<Rightarrow> Query \<Rightarrow> u32 \<Rightarrow> u64 \<Rightarrow> Error + GoValue \<times> GoValue" where
  "GetRange w q dimIdx rangeNum =
     (case arraySchema w of
        None \<Rightarrow> Inl SchemaUnavailable
      | Some schema \<Rightarrow>
     (case schemaDomain schema of
        None \<Rightarrow> Inl DomainUnavailable
      | Some domain \<Rightarrow>
     (case dimensionFromIndex domain (unat dimIdx) of
        None \<Rightarrow> Inl DimensionNotFound
      | Some dimension \<Rightarrow>
     (case dimensionType dimension of
        None \<Rightarrow> Inl DimensionTypeUnavailable
      | Some datatype \<Rightarrow>
     (case dimensionCellValNum dimension of
        None \<Rightarrow> Inl CellValNumUnavailable
      | Some cellValNum \<Rightarrow>
          if cellValNum = TILEDB_VAR_NUM w then
            (case engine_get_range_var_size w q dimIdx rangeNum of
               None \<Rightarrow> Inl EngineFailure
             | Some (startSize, endSize) \<Rightarrow>
                 if startSize = 0 \<or> endSize = 0 then Inl Panic
                 else
                   (case engine_get_range_var w q dimIdx rangeNum of
                      None \<Rightarrow> Inl EngineFailure
                    | Some (startData, endData) \<Rightarrow>
                        Inr (GoSlice KUint8 startData, GoSlice KUint8 endData)))
          else
            (case engine_get_range w q dimIdx rangeNum of
               None \<Rightarrow> Inl EngineFailure
             | Some (pStart, pEnd) \<Rightarrow>
                 (case GetRange_type datatype of
                    None \<Rightarrow> Inl (UnrecognizedDatatype datatype)
                  | Some t \<Rightarrow> Inr (readScalar t pStart, readScalar t pEnd))))))))"

text \<open>\<open>Query.GetRangeVar\<close> (query.go, lines 732-734).\<close>

definition GetRangeVar :: "World \<Rightarrow> Query \<Rightarrow> u32 \<Rightarrow> u64 \<Rightarrow> Error + GoValue \<times> GoValue" where
  "GetRangeVar w q dimIdx rangeNum = GetRange w q dimIdx rangeNum"


section \<open>Result views and result sizes\<close>

text \<open>
  The switch of \<open>Buffer\<close> on the field's datatype (lines 871-964): the element type of
  the slice it returns and the \<open>C.sizeof\<close> it divides the byte count by. Every value of
  \<open>Datatype\<close> has an arm; \<open>TILEDB_ANY\<close> divides by \<open>C.sizeof_int32_t\<close> and
  returns \<open>C.int8_t\<close> elements.
\<close>

fun Buffer_type :: "Datatype \<Rightarrow> Kind \<times> u64" where
  "Buffer_type TILEDB_INT8 = (KInt8, 1)"
| "Buffer_type TILEDB_INT16 = (KInt16, 2)"
| "Buffer_type TILEDB_INT32 = (KInt32, 4)"
| "Buffer_type TILEDB_UINT8 = (KUint8, 1)"
| "Buffer_type TILEDB_UINT16 = (KUint16, 2)"
| "Buffer_type TILEDB_UINT32 = (KUint32, 4)"
| "Buffer_type TILEDB_UINT64 = (KUint64, 8)"
| "Buffer_type TILEDB_FLOAT32 = (KFloat32, 4)"
| "Buffer_type TILEDB_FLOAT64 = (KFloat64, 8)"
| "Buffer_type TILEDB_CHAR = (KUint8, 1)"
| "Buffer_type TILEDB_STRING_ASCII = (KUint8, 1)"
| "Buffer_type TILEDB_STRING_UTF8 = (KUint8, 1)"
| "Buffer_type TILEDB_STRING_UTF16 = (KUint16, 2)"
| "Buffer_type TILEDB_STRING_UTF32 = (KUint32, 4)"
| "Buffer_type TILEDB_STRING_UCS2 = (KUint16, 2)"
| "Buffer_type TILEDB_STRING_UCS4 = (KUint32, 4)"
| "Buffer_type TILEDB_ANY = (KInt8, 4)"
| "Buffer_type _ = (KInt64, 8)"

text \<open>A slice over the engine's buffer: its element kind and its length.\<close>

record BufferView =
  viewKind :: Kind
  viewLength :: u64

text \<open>
  \<open>Query.Buffer\<close> (query.go, lines 816-971). Each arm calls the engine, divides the
  count behind \<open>cbufferSize\<close> and slices an array of \<open>1 << 46\<close> elements, all
  before the status is looked at: a null \<open>cbufferSize\<close> and a length above
  \<open>1 << 46\<close> panic.
\<close>

definition Buffer :: "World \<Rightarrow> Query \<Rightarrow> string \<Rightarrow> Error + BufferView" where
  "Buffer w q attributeOrDimension =
     (case fieldType w attributeOrDimension of
        Inl err \<Rightarrow> Inl err
      | Inr datatype \<Rightarrow>
          (case bufferSizePtr w attributeOrDimension of
             None \<Rightarrow> Inl Panic
           | Some cbufferSize \<Rightarrow>
               let len = cbufferSize div snd (Buffer_type datatype)
               in if 2 ^ 46 < len then Inl Panic
                  else if \<not> engineOK w (tiledb_query_get_buffer attributeOrDimension)
                  then Inl EngineFailure
                  else Inr \<lparr>viewKind = fst (Buffer_type datatype), viewLength = len\<rparr>))"

text \<open>
  The loop of \<open>Query.ResultBufferElements\<close> (query.go, lines 1243-1298) over the
  entries of \<open>q.resultBufferElements\<close>, with the map \<open>elements\<close> it fills. Dividing
  by a \<open>Size()\<close> of zero panics.
\<close>

fun ResultBufferElements_loop ::
  "World \<Rightarrow> ArraySchema \<Rightarrow> Domain \<Rightarrow> (string \<times> (u64 option \<times> u64)) list \<Rightarrow>
   (string \<times> (u64 \<times> u64)) list \<Rightarrow> Error + (string \<times> (u64 \<times> u64)) list" where
  "ResultBufferElements_loop w schema domain [] elements = Inr elements"
| "ResultBufferElements_loop w schema domain ((attributeOrDimension, v) # rest) elements =
     (if attributeOrDimension = TILEDB_COORDS w then
        (case domainType domain of
           None \<Rightarrow> Inl DomainTypeUnavailable
         | Some domType \<Rightarrow>
             if Size w domType = 0 then Inl Panic
             else ResultBufferElements_loop w schema domain rest
                    (AList.update attributeOrDimension (0, snd v div Size w domType) elements))
      else
        (let offsetElements = (case fst v of None \<Rightarrow> 0 | Some offsetBytes \<Rightarrow> offsetBytes div 8)
         in case dimensionOrAttributeType schema domain attributeOrDimension of
              Inl err \<Rightarrow> Inl err
            | Inr datatype \<Rightarrow>
                if Size w datatype = 0 then Inl Panic
                else ResultBufferElements_loop w schema domain rest
                       (AList.update attributeOrDimension
                          (offsetElements, snd v div Size w datatype) elements)))"

text \<open>\<open>Query.ResultBufferElements\<close> (query.go, lines 1228-1301). Ranging over a nil map visits nothing.\<close>

definition ResultBufferElements :: "World \<Rightarrow> Query \<Rightarrow> Error + (string \<times> (u64 \<times> u64)) list" where
  "ResultBufferElements w q =
     (case arraySchema w of
        None \<Rightarrow> Inl SchemaUnavailable
      | Some schema \<Rightarrow>
          (case schemaDomain schema of
             None \<Rightarrow> Inl DomainUnavailable
           | Some domain \<Rightarrow>
               ResultBufferElements_loop w schema domain
                 (case resultBufferElements q of None \<Rightarrow> [] | Some m \<Rightarrow> m) []))"

text \<open>\<open>Query.BufferSizeVar\<close> (query.go, lines 1501-1580).\<close>

definition BufferSizeVar :: "World \<Rightarrow> Query \<Rightarrow> string \<Rightarrow> Error + u64 \<times> u64" where
  "BufferSizeVar w q attributeOrDimension =
     (case fieldType w attributeOrDimension of
        Inl err \<Rightarrow> Inl err
      | Inr datatype \<Rightarrow>
          let dataTypeSize = Size w datatype;
              offsetTypeSize = Size w TILEDB_UINT64
          in if \<not> engineOK w (tiledb_query_get_buffer_var attributeOrDimension)
             then Inl EngineFailure
             else
               (case bufferVarSizePtrs w attributeOrDimension of
                  (coffsetsSize, cbufferSize) \<Rightarrow>
                    (case (case coffsetsSize of
                             None \<Rightarrow> Inr 0
                           | Some n \<Rightarrow> if offsetTypeSize = 0 then Inl Panic else Inr (n div offsetTypeSize)) of
                       Inl err \<Rightarrow> Inl err
                     | Inr offsetNumElements \<Rightarrow>
                         (case (case cbufferSize of
                                  None \<Rightarrow> Inr 0
                                | Some n \<Rightarrow> if dataTypeSize = 0 then Inl Panic else Inr (n div dataTypeSize)) of
                            Inl err \<Rightarrow> Inl err
                          | Inr dataNumElements \<Rightarrow> Inr (offsetNumElements, dataNumElements)))))"

text \<open>\<open>Query.BufferSize\<close> (query.go, lines 1583-1652).\<close>

definition BufferSize :: "World \<Rightarrow> Query \<Rightarrow> string \<Rightarrow> Error + u64" where
  "BufferSize w q attributeNameOrDimension =
     (case fieldType w attributeNameOrDimension of
        Inl err \<Rightarrow> Inl err
      | Inr datatype \<Rightarrow>
          let dataTypeSize = Size w datatype
          in if \<not> engineOK w (tiledb_query_get_buffer attributeNameOrDimension)
             then Inl EngineFailure
             else
               (case bufferSizePtr w attributeNameOrDimension of
                  None \<Rightarrow> Inr 0
                | Some n \<Rightarrow> if dataTypeSize = 0 then Inl Panic else Inr (n div dataTypeSize)))"

section \<open>A concrete array and query\<close>

text \<open>
  The array of the dense quickstart example: a domain of type \<open>TILEDB_INT32\<close> with
  the fixed-size dimensions \<open>rows\<close> and \<open>cols\<close>, and one attribute \<open>a\<close>, of type
  \<open>TILEDB_UINT32\<close>. The engine of \<open>exampleWorld\<close> answers every call with
  \<open>TILEDB_OK\<close> and reports 16 bytes for every buffer; the engine of
  \<open>rejectingWorld\<close> answers no call with \<open>TILEDB_OK\<close>; the engine of
  \<open>nullSizeWorld\<close> hands back null byte-count pointers.
\<close>

definition exampleDimension :: Dimension where
  "exampleDimension = \<lparr>dimensionType = Some TILEDB_INT32, dimensionCellValNum = Some 1\<rparr>"

definition exampleDomain :: Domain where
  "exampleDomain =
     \<lparr>domainType = Some TILEDB_INT32,
      hasDimension = (\<lambda>name. Some (name = ''rows'' \<or> name = ''cols'')),
      dimensionFromName =
        (\<lambda>name. if name = ''rows'' \<or> name = ''cols'' then Some exampleDimension else None),
      dimensionFromIndex = (\<lambda>i. if i < 2 then Some exampleDimension else None)\<rparr>"

definition exampleSchema :: ArraySchema where
  "exampleSchema =
     \<lparr>schemaDomain = Some exampleDomain,
      attributeFromName =
        (\<lambda>name. if name = ''a'' then Some \<lparr>attributeType = Some TILEDB_UINT32\<rparr> else None)\<rparr>"

definition exampleWorld :: World where
  "exampleWorld =
     \<lparr>arraySchema = Some exampleSchema,
      TILEDB_COORDS = ''__coords'',
      TILEDB_VAR_NUM = 4294967295,
      Size = (\<lambda>d. case widthOf d of None \<Rightarrow> 1 | Some n \<Rightarrow> of_nat n),
      engineOK = (\<lambda>call. True),
      bufferSizePtr = (\<lambda>name. Some 16),
      bufferVarSizePtrs = (\<lambda>name. (Some 16, Some 16))\<rparr>"

definition rejectingWorld :: World where
  "rejectingWorld = exampleWorld\<lparr>engineOK := (\<lambda>call. False)\<rparr>"

definition nullSizeWorld :: World where
  "nullSizeWorld =
     exampleWorld\<lparr>bufferSizePtr := (\<lambda>name. None), bufferVarSizePtrs := (\<lambda>name. (None, None))\<rparr>"

text \<open>
  The query that \<open>NewQuery\<close> (query.go, lines 57-81) returns when the engine has
  allocated a handle: no buffers, an empty map, and no range registered.
\<close>

definition NewQuery :: Query where
  "NewQuery =
     \<lparr>tiledbQuery = True, buffers = [], resultBufferElements = Some [],
      engineRanges = (\<lambda>dimIdx. []), engineReleases = 0\<rparr>"

text \<open>
  An array whose accessors answer for the same name in more than one way: the domain is
  of type \<open>TILEDB_INT32\<close>, it reports the names \<open>__coords\<close> and \<open>d\<close> as
  dimensions, of type \<open>TILEDB_INT64\<close>, and the schema has an attribute of type
  \<open>TILEDB_FLOAT32\<close> under every name.
\<close>

definition conflictWorld :: World where
  "conflictWorld =
     exampleWorld\<lparr>arraySchema := Some
       \<lparr>schemaDomain = Some
          \<lparr>domainType = Some TILEDB_INT32,
           hasDimension = (\<lambda>name. Some (name = ''__coords'' \<or> name = ''d'')),
           dimensionFromName =
             (\<lambda>name. Some \<lparr>dimensionType = Some TILEDB_INT64, dimensionCellValNum = Some 1\<rparr>),
           dimensionFromIndex = (\<lambda>i. None)\<rparr>,
        attributeFromName = (\<lambda>name. Some \<lparr>attributeType = Some TILEDB_FLOAT32\<rparr>)\<rparr>\<rparr>"

text \<open>An array with one variable-size string dimension, \<open>d\<close>, and no attribute.\<close>

definition stringDimension :: Dimension where
  "stringDimension =
     \<lparr>dimensionType = Some TILEDB_STRING_ASCII, dimensionCellValNum = Some 4294967295\<rparr>"

definition stringWorld :: World where
  "stringWorld =
     exampleWorld\<lparr>arraySchema := Some
       \<lparr>schemaDomain = Some
          \<lparr>domainType = Some TILEDB_STRING_ASCII,
           hasDimension = (\<lambda>name. Some (name = ''d'')),
           dimensionFromName = (\<lambda>name. if name = ''d'' then Some stringDimension else None),
           dimensionFromIndex = (\<lambda>i. if i = 0 then Some stringDimension else None)\<rparr>,
        attributeFromName = (\<lambda>name. None)\<rparr>\<rparr>"


text \<open>
  A query with two bound fields: the coordinates, 32 bytes, and a variable-size field
  \<open>v\<close> with 24 bytes of offsets and 10 bytes of data.
\<close>

definition boundQuery :: Query where
  "boundQuery = NewQuery\<lparr>resultBufferElements :=
     Some [(''__coords'', (None, 32)), (''v'', (Some 24, 10))]\<rparr>"

section \<open>Verification\<close>

text \<open>
  The definitions of the concrete array, worlds and queries, and of the methods, unfolded
  when a method is run on a concrete input.
\<close>

lemmas example_defs =
  exampleWorld_def exampleSchema_def exampleDomain_def exampleDimension_def
  rejectingWorld_def nullSizeWorld_def NewQuery_def
  conflictWorld_def stringWorld_def stringDimension_def

lemmas field_defs = fieldType_def fieldTypeVar_def dimensionOrAttributeType_def

lemmas range_defs =
  engine_add_range_def engine_get_range_num_def engine_lookup_range_def engine_get_range_def
  engine_get_range_var_size_def engine_get_range_var_def

subsection \<open>The byte size of a fixed-size bind\<close>

lemma sizeofKind_widthOf:
  "sizeofKind (ReflectKind D) = Some sz \<Longrightarrow> \<exists>wd. widthOf D = Some wd \<and> sz = of_nat wd \<and> wd \<le> 8"
  by (cases D) simp_all

lemma supported_width:
  "ReflectKind D \<noteq> KInterface \<Longrightarrow>
   \<exists>wd. widthOf D = Some wd \<and> sizeofKind (ReflectKind D) = Some (of_nat wd)"
  by (cases D) simp_all

lemma unat_byteSize:
  assumes "n * 8 < 2 ^ 64" and "wd \<le> 8"
  shows "unat ((of_nat n :: u64) * of_nat wd) = wd * n"
proof -
  have "n * wd \<le> n * 8" using assms(2) by (rule mult_le_mono2)
  then have lt: "n * wd < 2 ^ 64" using assms(1) by (rule le_less_trans)
  have "unat ((of_nat n :: u64) * of_nat wd) = n * wd"
    by (rule of_nat_inverse) (use lt in simp_all)
  then show ?thesis by (simp add: mult.commute)
qed

text \<open>
  Claim C1. A successful fixed-size bind registers and returns \<open>widthOf(D) * n\<close>.
  When \<open>SetBuffer\<close> succeeds on a slice of \<open>n\<close> elements of kind \<open>k\<close>, the
  field resolves to a datatype \<open>D\<close> whose kind is \<open>k\<close>, \<open>D\<close> has a width,
  \<open>n\<close> is positive, and the byte size that \<open>SetBuffer\<close> returns is the width of
  \<open>D\<close> times \<open>n\<close>; that size is the one passed to the engine and the one recorded
  for the field in the result-size table, with no offsets size. The slice is one that
  memory can hold: eight bytes for each element stay below \<open>2^64\<close>, so the product in
  \<open>uint64\<close> does not wrap.
\<close>

theorem SetBuffer_byteSize:
  assumes ok: "SetBuffer w q name (GoSlice k elems) = (q', Inr bufferSize)"
      and fits: "length elems * 8 < 2 ^ 64"
  shows "\<exists>D wd m. fieldType w name = Inr D \<and> ReflectKind D = k \<and> widthOf D = Some wd
          \<and> 0 < length elems \<and> unat bufferSize = wd * length elems
          \<and> engineOK w (tiledb_query_set_buffer name bufferSize)
          \<and> resultBufferElements q' = Some m \<and> map_of m name = Some (None, bufferSize)"
proof -
  from ok obtain D sz m where
    D: "fieldType w name = Inr D" and k: "ReflectKind D = k"
    and ne: "length elems \<noteq> 0"
    and sz: "sizeofKind k = Some sz"
    and bs: "bufferSize = of_nat (length elems) * sz"
    and eng: "engineOK w (tiledb_query_set_buffer name bufferSize)"
    and m: "resultBufferElements q = Some m"
    and q': "resultBufferElements q' = Some (AList.update name (None, bufferSize) m)"
    by (auto simp: SetBuffer_def Let_def split: sum.splits if_splits option.splits)
  from sz k obtain wd where wd: "widthOf D = Some wd" "sz = of_nat wd" "wd \<le> 8"
    using sizeofKind_widthOf [of D sz] by auto
  have pos: "0 < length elems" using ne by simp
  have "unat bufferSize = wd * length elems"
    unfolding bs wd(2) using unat_byteSize [OF fits wd(3)] .
  moreover have "map_of (AList.update name (None, bufferSize) m) name = Some (None, bufferSize)"
    by (simp add: update_conv')
  ultimately show ?thesis using D k wd(1) pos eng q' by blast
qed

text \<open>
  The bind of the dense quickstart example: four \<open>uint32\<close> values for the attribute
  \<open>a\<close> are 16 bytes.
\<close>

theorem SetBuffer_byteSize_witness:
  "snd (SetBuffer exampleWorld NewQuery ''a'' (GoSlice KUint32 [1, 2, 3, 4])) = Inr 16
   \<and> (\<exists>D wd m. fieldType exampleWorld ''a'' = Inr D \<and> ReflectKind D = KUint32
          \<and> widthOf D = Some wd
          \<and> 0 < length [1, 2, 3, 4 :: nat] \<and> unat (16 :: u64) = wd * length [1, 2, 3, 4 :: nat]
          \<and> engineOK exampleWorld (tiledb_query_set_buffer ''a'' 16)
          \<and> resultBufferElements
               (fst (SetBuffer exampleWorld NewQuery ''a'' (GoSlice KUint32 [1, 2, 3, 4]))) = Some m
          \<and> map_of m ''a'' = Some (None, 16))"
proof -
  have run: "SetBuffer exampleWorld NewQuery ''a'' (GoSlice KUint32 [1, 2, 3, 4]) =
      (fst (SetBuffer exampleWorld NewQuery ''a'' (GoSlice KUint32 [1, 2, 3, 4])), Inr 16)"
    by (simp add: SetBuffer_def field_defs example_defs Let_def)
  have fits: "length [1, 2, 3, 4 :: nat] * 8 < 2 ^ 64" by simp
  have res: "snd (SetBuffer exampleWorld NewQuery ''a'' (GoSlice KUint32 [1, 2, 3, 4])) = Inr 16"
    using run by (metis snd_conv)
  show ?thesis using res SetBuffer_byteSize [OF run fits] by blast
qed

text \<open>
  Every datatype whose kind is not \<open>Interface\<close> is supported: on a non-empty slice of
  its kind, with the engine accepting and the query not freed, \<open>SetBuffer\<close> succeeds.
\<close>

lemma SetBuffer_succeeds:
  assumes "fieldType w name = Inr D" and "ReflectKind D \<noteq> KInterface" and "elems \<noteq> []"
    and "resultBufferElements q = Some m"
    and "\<forall>size. engineOK w (tiledb_query_set_buffer name size)"
  shows "\<exists>q' wd. widthOf D = Some wd
           \<and> SetBuffer w q name (GoSlice (ReflectKind D) elems)
               = (q', Inr (of_nat (length elems) * of_nat wd))"
proof -
  from supported_width [OF assms(2)] obtain wd where
    wd: "widthOf D = Some wd" "sizeofKind (ReflectKind D) = Some (of_nat wd)" by blast
  show ?thesis using assms(1,3,4,5) wd by (simp add: SetBuffer_def Let_def)
qed

subsection \<open>Result buffer elements\<close>

lemma ResultBufferElements_loop_result:
  assumes "ResultBufferElements_loop w schema domain m acc = Inr elements"
    and "arraySchema w = Some schema" and "schemaDomain schema = Some domain"
    and "distinct (map fst m)"
  shows "(\<forall>name v. (name, v) \<in> set m \<longrightarrow>
            (\<exists>D. fieldType w name = Inr D \<and> Size w D \<noteq> 0
               \<and> map_of elements name =
                   Some (if name = TILEDB_COORDS w then 0
                         else (case fst v of None \<Rightarrow> 0 | Some n \<Rightarrow> n div 8),
                         snd v div Size w D)))
         \<and> (\<forall>name. name \<notin> fst ` set m \<longrightarrow> map_of elements name = map_of acc name)"
  using assms(1,4)
proof (induction m arbitrary: acc)
  case Nil
  then show ?case by simp
next
  case (Cons entry rest)
  obtain name0 v0 where entry: "entry = (name0, v0)" by (cases entry)
  have fresh: "name0 \<notin> fst ` set rest" and dist: "distinct (map fst rest)"
    using Cons.prems(2) entry by auto
  let ?off = "if name0 = TILEDB_COORDS w then 0
              else (case fst v0 of None \<Rightarrow> 0 | Some n \<Rightarrow> n div 8)"
  from Cons.prems(1) entry obtain D where
    D: "fieldType w name0 = Inr D" and nz: "Size w D \<noteq> 0"
    and rest: "ResultBufferElements_loop w schema domain rest
                 (AList.update name0 (?off, snd v0 div Size w D) acc) = Inr elements"
    by (auto simp: fieldType_def assms(2,3) Let_def split: option.splits sum.splits if_splits)
  note ih = Cons.IH [OF rest dist]
  have here: "map_of elements name0 = Some (?off, snd v0 div Size w D)"
    using ih fresh by (simp add: update_conv')
  have others: "\<forall>name. name \<notin> fst ` set (entry # rest) \<longrightarrow> map_of elements name = map_of acc name"
    using ih entry by (auto simp: update_conv')
  have mem: "\<forall>name v. (name, v) \<in> set (entry # rest) \<longrightarrow>
            (\<exists>D. fieldType w name = Inr D \<and> Size w D \<noteq> 0
               \<and> map_of elements name =
                   Some (if name = TILEDB_COORDS w then 0
                         else (case fst v of None \<Rightarrow> 0 | Some n \<Rightarrow> n div 8),
                         snd v div Size w D))"
  proof (intro allI impI)
    fix name v
    assume "(name, v) \<in> set (entry # rest)"
    then consider "name = name0" "v = v0" | "(name, v) \<in> set rest"
      using entry by auto
    then show "\<exists>D. fieldType w name = Inr D \<and> Size w D \<noteq> 0
               \<and> map_of elements name =
                   Some (if name = TILEDB_COORDS w then 0
                         else (case fst v of None \<Rightarrow> 0 | Some n \<Rightarrow> n div 8),
                         snd v div Size w D)"
    proof cases
      case 1
      then show ?thesis using D nz here by blast
    next
      case 2
      then show ?thesis using ih by blast
    qed
  qed
  show ?case using mem others by blast
qed

lemma fieldType_COORDS:
  "fieldType w (TILEDB_COORDS w) = Inr D \<Longrightarrow>
   \<exists>schema domain. arraySchema w = Some schema \<and> schemaDomain schema = Some domain
      \<and> domainType domain = Some D"
  by (auto simp: fieldType_def split: option.splits)

text \<open>
  Claim C2. When \<open>ResultBufferElements\<close> returns a map, every field of the result-size
  table (a Go map: its keys are distinct) has an entry in it: the offset count is the
  offset byte count divided by 8 when the field has an offsets pointer and is not the
  coordinate field, and 0 otherwise; the data count is the data byte count divided by
  \<open>Size()\<close> of the field's datatype, which for the coordinate field is the datatype of
  the domain and for any other field the type of the dimension or else of the attribute of
  that name. A field whose offsets pointer is nil reports an offset count of exactly 0.
\<close>

theorem ResultBufferElements_counts:
  assumes "ResultBufferElements w q = Inr elements"
    and "resultBufferElements q = Some m" and "distinct (map fst m)"
    and "(name, offsetBytes, dataBytes) \<in> set m"
  shows "\<exists>D. fieldType w name = Inr D \<and> Size w D \<noteq> 0
           \<and> map_of elements name =
               Some (if name = TILEDB_COORDS w then 0
                     else (case offsetBytes of None \<Rightarrow> 0 | Some n \<Rightarrow> n div 8),
                     dataBytes div Size w D)
           \<and> (name = TILEDB_COORDS w \<longrightarrow>
                (\<exists>schema domain. arraySchema w = Some schema \<and> schemaDomain schema = Some domain
                   \<and> domainType domain = Some D))
           \<and> (offsetBytes = None \<longrightarrow> map_of elements name = Some (0, dataBytes div Size w D))"
proof -
  from assms(1) obtain schema domain where
    sd: "arraySchema w = Some schema" "schemaDomain schema = Some domain"
    and loop: "ResultBufferElements_loop w schema domain m [] = Inr elements"
    by (auto simp: ResultBufferElements_def assms(2) split: option.splits)
  from ResultBufferElements_loop_result [OF loop sd assms(3)] assms(4)
  obtain D where D: "fieldType w name = Inr D" "Size w D \<noteq> 0"
    "map_of elements name =
       Some (if name = TILEDB_COORDS w then 0
             else (case offsetBytes of None \<Rightarrow> 0 | Some n \<Rightarrow> n div 8),
             dataBytes div Size w D)"
    by fastforce
  have coords: "name = TILEDB_COORDS w \<longrightarrow>
                (\<exists>schema domain. arraySchema w = Some schema \<and> schemaDomain schema = Some domain
                   \<and> domainType domain = Some D)"
    using D(1) fieldType_COORDS [of w D] by blast
  have fixed: "offsetBytes = None \<longrightarrow> map_of elements name = Some (0, dataBytes div Size w D)"
    using D(3) by simp
  show ?thesis using D coords fixed by blast
qed

text \<open>
  A coordinate field of 32 bytes over a domain of type \<open>TILEDB_INT32\<close>, and a
  variable-size field \<open>v\<close> of type \<open>TILEDB_FLOAT32\<close> with 24 bytes of offsets and 10
  bytes of data.
\<close>

theorem ResultBufferElements_counts_witness:
  "ResultBufferElements conflictWorld boundQuery = Inr [(''__coords'', (0, 8)), (''v'', (3, 2))]
   \<and> resultBufferElements boundQuery = Some [(''__coords'', (None, 32)), (''v'', (Some 24, 10))]
   \<and> distinct (map fst [(''__coords'', (None :: u64 option, 32 :: u64)), (''v'', (Some 24, 10))])
   \<and> (\<exists>D. fieldType conflictWorld ''__coords'' = Inr D \<and> Size conflictWorld D \<noteq> 0
         \<and> map_of [(''__coords'', (0 :: u64, 8 :: u64)), (''v'', (3, 2))] ''__coords''
             = Some (0, 32 div Size conflictWorld D)
         \<and> domainType (the (schemaDomain (the (arraySchema conflictWorld)))) = Some D)
   \<and> (\<exists>D. fieldType conflictWorld ''v'' = Inr D \<and> Size conflictWorld D \<noteq> 0
         \<and> map_of [(''__coords'', (0 :: u64, 8 :: u64)), (''v'', (3, 2))] ''v''
             = Some (24 div 8, 10 div Size conflictWorld D))"
proof -
  have run: "ResultBufferElements conflictWorld boundQuery = Inr [(''__coords'', (0, 8)), (''v'', (3, 2))]"
    by (simp add: ResultBufferElements_def boundQuery_def field_defs example_defs)
  have tbl: "resultBufferElements boundQuery = Some [(''__coords'', (None, 32)), (''v'', (Some 24, 10))]"
    by (simp add: boundQuery_def example_defs)
  have dist: "distinct (map fst [(''__coords'', (None :: u64 option, 32 :: u64)), (''v'', (Some 24, 10))])"
    by simp
  have m1: "(''__coords'', None, 32) \<in> set [(''__coords'', (None :: u64 option, 32 :: u64)), (''v'', (Some 24, 10))]"
    and m2: "(''v'', Some 24, 10) \<in> set [(''__coords'', (None :: u64 option, 32 :: u64)), (''v'', (Some 24, 10))]"
    by simp_all
  have c: "TILEDB_COORDS conflictWorld = ''__coords''" by (simp add: example_defs)
  have s: "arraySchema conflictWorld \<noteq> None" "schemaDomain (the (arraySchema conflictWorld)) \<noteq> None"
    by (simp_all add: example_defs)
  show ?thesis
    using run tbl dist c s
      ResultBufferElements_counts [OF run tbl dist m1]
      ResultBufferElements_counts [OF run tbl dist m2]
    by auto
qed

text \<open>
  The map has no entry for a field that is not bound, and the binds keep the keys of the
  result-size table distinct.
\<close>

lemma ResultBufferElements_only_bound:
  assumes "ResultBufferElements w q = Inr elements"
    and "resultBufferElements q = Some m" and "distinct (map fst m)"
    and "name \<notin> fst ` set m"
  shows "map_of elements name = None"
proof -
  from assms(1) obtain schema domain where
    sd: "arraySchema w = Some schema" "schemaDomain schema = Some domain"
    and loop: "ResultBufferElements_loop w schema domain m [] = Inr elements"
    by (auto simp: ResultBufferElements_def assms(2) split: option.splits)
  from ResultBufferElements_loop_result [OF loop sd assms(3)] assms(4)
  show ?thesis by simp
qed

lemma bind_distinct_keys:
  assumes "resultBufferElements q = Some m" and "distinct (map fst m)"
  shows "\<exists>m'. resultBufferElements (fst (SetBuffer w q name buffer)) = Some m' \<and> distinct (map fst m')"
    and "\<exists>m'. resultBufferElements (fst (SetBufferVar w q name offset buffer)) = Some m'
           \<and> distinct (map fst m')"
    and "\<exists>m'. resultBufferElements (fst (SetBufferUnsafe w q name bufferSize)) = Some m'
           \<and> distinct (map fst m')"
    and "\<exists>m'. resultBufferElements (fst (SetBufferVarUnsafe w q name offsetSize bufferSize)) = Some m'
           \<and> distinct (map fst m')"
  using assms
  by (auto simp: SetBuffer_def SetBufferVar_def SetBufferUnsafe_def SetBufferVarUnsafe_def
      Let_def distinct_update split: GoValue.splits sum.splits option.splits)

text \<open>
  \<open>ResultBufferElements\<close> does return a map when every bound field resolves to a
  datatype of non-zero size.
\<close>

lemma ResultBufferElements_loop_returns:
  assumes "arraySchema w = Some schema" and "schemaDomain schema = Some domain"
    and "\<forall>name \<in> fst ` set m. \<exists>D. fieldType w name = Inr D \<and> Size w D \<noteq> 0"
  shows "\<exists>elements. ResultBufferElements_loop w schema domain m acc = Inr elements"
  using assms(3)
proof (induction m arbitrary: acc)
  case Nil
  then show ?case by simp
next
  case (Cons entry rest)
  obtain name0 v0 where entry: "entry = (name0, v0)" by (cases entry)
  from Cons.prems entry obtain D where D: "fieldType w name0 = Inr D" "Size w D \<noteq> 0"
    by auto
  have rest: "\<forall>name \<in> fst ` set rest. \<exists>D. fieldType w name = Inr D \<and> Size w D \<noteq> 0"
    using Cons.prems by auto
  show ?case
  proof (cases "name0 = TILEDB_COORDS w")
    case True
    then have "domainType domain = Some D"
      using D(1) assms(1,2) by (auto simp: fieldType_def split: option.splits)
    then show ?thesis using True D(2) entry Cons.IH [OF rest] by simp
  next
    case False
    then have "dimensionOrAttributeType schema domain name0 = Inr D"
      using D(1) assms(1,2) by (simp add: fieldType_def)
    then show ?thesis using False D(2) entry Cons.IH [OF rest] by (simp add: Let_def)
  qed
qed

lemma ResultBufferElements_returns:
  assumes "arraySchema w = Some schema" and "schemaDomain schema = Some domain"
    and "resultBufferElements q = Some m"
    and "\<forall>name \<in> fst ` set m. \<exists>D. fieldType w name = Inr D \<and> Size w D \<noteq> 0"
  shows "\<exists>elements. ResultBufferElements w q = Inr elements"
  using ResultBufferElements_loop_returns [OF assms(1,2,4), of "[]"] assms(1,2,3)
  by (simp add: ResultBufferElements_def)

subsection \<open>Adding a range\<close>

text \<open>
  The two checks that \<open>AddRange\<close> makes: the kinds of the two components agree, and
  the kind is one of the twelve of its switch.
\<close>

lemma AddRange_kinds_disagree:
  "kindOf start \<noteq> kindOf end' \<Longrightarrow>
   AddRange w q dimIdx start end' = (q, Some (TypeMismatch (kindOf start) (kindOf end')))"
  by (simp add: AddRange_def)

lemma AddRange_unrecognized:
  "kindOf start = kindOf end' \<Longrightarrow> start \<noteq> GoNil \<Longrightarrow> \<not> numericKind (kindOf start) \<Longrightarrow>
   AddRange w q dimIdx start end' = (q, Some (UnrecognizedType (kindOf start)))"
  by (cases start) (simp_all add: AddRange_def)

text \<open>
  It makes no other: whatever the schema says of the dimension, a range of a numeric kind
  goes to the engine, and \<open>AddRange\<close> returns what the engine answers.
\<close>

lemma AddRange_no_dimension_check:
  "numericKind k \<Longrightarrow> engineOK w (tiledb_query_add_range dimIdx s e) \<Longrightarrow>
   snd (AddRange w q dimIdx (GoScalar k s) (GoScalar k e)) = None"
  by (simp add: AddRange_def engine_add_range_def)

text \<open>
  Claim C3. \<open>AddRange\<close> is to fail with a type mismatch when the kinds of \<open>start\<close>
  and \<open>end\<close> agree with each other and differ from the kind of the dimension's
  datatype. On the array of the dense quickstart example, whose dimension 0 is of type
  \<open>TILEDB_INT32\<close> (kind \<open>Int32\<close>), the call \<open>AddRange(0, int64(1), int64(4))\<close>
  returns no error and registers the range: the kind of the components is never compared
  with the dimension's.
\<close>

theorem AddRange_dimension_kind_unchecked:
  "arraySchema exampleWorld = Some exampleSchema
   \<and> schemaDomain exampleSchema = Some exampleDomain
   \<and> dimensionFromIndex exampleDomain (unat (0 :: u32)) = Some exampleDimension
   \<and> dimensionType exampleDimension = Some TILEDB_INT32
   \<and> ReflectKind TILEDB_INT32 = KInt32
   \<and> kindOf (GoScalar KInt64 1) = KInt64 \<and> kindOf (GoScalar KInt64 4) = KInt64
   \<and> AddRange exampleWorld NewQuery 0 (GoScalar KInt64 1) (GoScalar KInt64 4)
       = (NewQuery\<lparr>engineRanges := (\<lambda>dimIdx. [])(0 := [FixedRange 1 4])\<rparr>, None)"
  by (simp add: AddRange_def engine_add_range_def example_defs)

subsection \<open>A bind that fails\<close>

lemma SetBuffer_failed:
  assumes "SetBuffer w q name buffer = (q', Inl err)"
  shows "resultBufferElements q' = resultBufferElements q"
    and "engineRanges q' = engineRanges q"
    and "buffers q' = buffers q \<or> buffers q' = buffers q @ [buffer]"
    and "err \<noteq> EngineFailure \<Longrightarrow> err \<noteq> Panic \<Longrightarrow> q' = q"
  using assms
  by (auto simp: SetBuffer_def Let_def split: GoValue.splits sum.splits if_splits option.splits)

lemma SetBufferVar_failed:
  assumes "SetBufferVar w q name offset buffer = (q', Inl err)"
  shows "resultBufferElements q' = resultBufferElements q"
    and "engineRanges q' = engineRanges q"
    and "\<exists>pinned. buffers q' = buffers q @ pinned"
    and "err \<noteq> EngineFailure \<Longrightarrow> err \<noteq> Panic \<Longrightarrow> \<forall>k. err \<noteq> UnrecognizedType k \<Longrightarrow> q' = q"
  using assms
  by (auto simp: SetBufferVar_def Let_def split: GoValue.splits sum.splits if_splits option.splits)

text \<open>
  Claim C4, as stated, fails: a fixed-size bind that the engine rejects has appended the
  slice to \<open>q.buffers\<close> before the engine call, and returns with the slice still
  there.
\<close>

theorem failed_bind_counterexample:
  "snd (SetBuffer rejectingWorld NewQuery ''a'' (GoSlice KUint32 [1, 2, 3, 4])) = Inl EngineFailure
   \<and> buffers (fst (SetBuffer rejectingWorld NewQuery ''a'' (GoSlice KUint32 [1, 2, 3, 4])))
       = [GoSlice KUint32 [1, 2, 3, 4]]
   \<and> buffers (fst (SetBuffer rejectingWorld NewQuery ''a'' (GoSlice KUint32 [1, 2, 3, 4])))
       \<noteq> buffers NewQuery"
  by (simp add: SetBuffer_def field_defs example_defs Let_def)

text \<open>
  Claim C4, amended. Every fixed-size or variable-size bind that fails leaves the
  result-size table unchanged, and every bind that fails before the engine is called with
  an error of its checks (a buffer that is no slice, a schema lookup failure, a type
  mismatch, an empty buffer or empty offsets) leaves the buffer pinning table unchanged
  too.
\<close>

theorem failed_bind_tables:
  "(SetBuffer w q name buffer = (q', Inl err) \<longrightarrow>
      resultBufferElements q' = resultBufferElements q
      \<and> (err \<noteq> EngineFailure \<and> err \<noteq> Panic \<longrightarrow> buffers q' = buffers q))
   \<and> (SetBufferVar w q name offset buffer = (q'', Inl err') \<longrightarrow>
      resultBufferElements q'' = resultBufferElements q
      \<and> (err' \<noteq> EngineFailure \<and> err' \<noteq> Panic \<and> (\<forall>k. err' \<noteq> UnrecognizedType k)
           \<longrightarrow> buffers q'' = buffers q))"
  using SetBuffer_failed(1,4) [of w q name buffer q' err]
    SetBufferVar_failed(1,4) [of w q name offset buffer q'' err']
  by blast

text \<open>
  A bind of \<open>int64\<close> values for the \<open>uint32\<close> attribute \<open>a\<close>, and a
  variable-size bind with no offsets.
\<close>

theorem failed_bind_tables_witness:
  "snd (SetBuffer exampleWorld NewQuery ''a'' (GoSlice KInt64 [1, 2])) = Inl (TypeMismatch KInt64 KUint32)
   \<and> resultBufferElements (fst (SetBuffer exampleWorld NewQuery ''a'' (GoSlice KInt64 [1, 2])))
       = resultBufferElements NewQuery
   \<and> buffers (fst (SetBuffer exampleWorld NewQuery ''a'' (GoSlice KInt64 [1, 2]))) = buffers NewQuery
   \<and> snd (SetBufferVar exampleWorld NewQuery ''a'' [] (GoSlice KUint32 [1, 2])) = Inl EmptyOffsets
   \<and> resultBufferElements (fst (SetBufferVar exampleWorld NewQuery ''a'' [] (GoSlice KUint32 [1, 2])))
       = resultBufferElements NewQuery
   \<and> buffers (fst (SetBufferVar exampleWorld NewQuery ''a'' [] (GoSlice KUint32 [1, 2])))
       = buffers NewQuery"
proof -
  have a: "SetBuffer exampleWorld NewQuery ''a'' (GoSlice KInt64 [1, 2]) =
      (fst (SetBuffer exampleWorld NewQuery ''a'' (GoSlice KInt64 [1, 2])),
       Inl (TypeMismatch KInt64 KUint32))"
    by (simp add: SetBuffer_def field_defs example_defs Let_def)
  have b: "SetBufferVar exampleWorld NewQuery ''a'' [] (GoSlice KUint32 [1, 2]) =
      (fst (SetBufferVar exampleWorld NewQuery ''a'' [] (GoSlice KUint32 [1, 2])), Inl EmptyOffsets)"
    by (simp add: SetBufferVar_def field_defs example_defs Let_def)
  have sa: "snd (SetBuffer exampleWorld NewQuery ''a'' (GoSlice KInt64 [1, 2])) = Inl (TypeMismatch KInt64 KUint32)"
    using a by (metis snd_conv)
  have sb: "snd (SetBufferVar exampleWorld NewQuery ''a'' [] (GoSlice KUint32 [1, 2])) = Inl EmptyOffsets"
    using b by (metis snd_conv)
  show ?thesis
    using a b sa sb
      failed_bind_tables [of exampleWorld NewQuery "''a''" "GoSlice KInt64 [1, 2]"
        "fst (SetBuffer exampleWorld NewQuery ''a'' (GoSlice KInt64 [1, 2]))"
        "TypeMismatch KInt64 KUint32" "[]"
        "fst (SetBufferVar exampleWorld NewQuery ''a'' [] (GoSlice KInt64 [1, 2]))" "EmptyOffsets"]
      failed_bind_tables [of exampleWorld NewQuery "''a''" "GoSlice KUint32 [1, 2]"
        "fst (SetBuffer exampleWorld NewQuery ''a'' (GoSlice KUint32 [1, 2]))"
        "EmptyBuffer" "[]"
        "fst (SetBufferVar exampleWorld NewQuery ''a'' [] (GoSlice KUint32 [1, 2]))" "EmptyOffsets"]
    by simp
qed

subsection \<open>Variable-size ranges\<close>



lemma AddRangeVar_failure_unchanged:
  assumes "AddRangeVar w q dimIdx start end' = (q', Some err)"
  shows "q' = q"
  using assms
  by (auto simp: AddRangeVar_def Let_def engine_add_range_def
      split: GoValue.splits if_splits option.splits)




subsection \<open>An empty buffer\<close>

text \<open>
  Claim C6, as stated, fails: the element kind is compared with the field's datatype
  before the length is looked at, so an empty \<open>[]int64\<close> for the \<open>uint32\<close>
  attribute \<open>a\<close> fails with the type mismatch, not with the empty-buffer error.
\<close>

theorem empty_buffer_counterexample:
  "snd (SetBuffer exampleWorld NewQuery ''a'' (GoSlice KInt64 [])) = Inl (TypeMismatch KInt64 KUint32)
   \<and> snd (SetBuffer exampleWorld NewQuery ''a'' (GoSlice KInt64 [])) \<noteq> Inl EmptyBuffer"
  by (simp add: SetBuffer_def field_defs example_defs Let_def)

text \<open>
  Claim C6, amended. Binding an empty buffer always fails and leaves the query as it was:
  \<open>SetBuffer\<close> with a zero-length slice, \<open>SetBufferVar\<close> with a zero-length data
  slice or zero-length offsets. The error is the empty-buffer error (for non-empty data
  with empty offsets, the empty-offsets error) whenever the field resolves and the element
  kind of the buffer is the kind of the field's datatype; otherwise it is the error of
  the earlier check: the error of the schema lookup when the field does not resolve, and
  the type mismatch between the buffer's element kind and the kind of the field's
  datatype when the field resolves and the kinds differ.
\<close>

theorem empty_buffer_fails:
  "(\<exists>err. SetBuffer w q name (GoSlice k []) = (q, Inl err)
      \<and> (\<forall>D. fieldType w name = Inr D \<and> ReflectKind D = k \<longrightarrow> err = EmptyBuffer)
      \<and> (\<forall>D. fieldType w name = Inr D \<and> ReflectKind D \<noteq> k \<longrightarrow>
            err = TypeMismatch k (ReflectKind D))
      \<and> (\<forall>e. fieldType w name = Inl e \<longrightarrow> err = e))
   \<and> (elems = [] \<or> offset = [] \<longrightarrow>
        (\<exists>err. SetBufferVar w q name offset (GoSlice k elems) = (q, Inl err)
           \<and> (\<forall>D. fieldTypeVar w name = Inr D \<and> ReflectKind D = k \<longrightarrow>
                 err = (if elems = [] then EmptyBuffer else EmptyOffsets))
           \<and> (\<forall>D. fieldTypeVar w name = Inr D \<and> ReflectKind D \<noteq> k \<longrightarrow>
                 err = TypeMismatch k (ReflectKind D))
           \<and> (\<forall>e. fieldTypeVar w name = Inl e \<longrightarrow> err = e)))"
proof -
  have fixed: "\<exists>err. SetBuffer w q name (GoSlice k []) = (q, Inl err)
      \<and> (\<forall>D. fieldType w name = Inr D \<and> ReflectKind D = k \<longrightarrow> err = EmptyBuffer)
      \<and> (\<forall>D. fieldType w name = Inr D \<and> ReflectKind D \<noteq> k \<longrightarrow>
            err = TypeMismatch k (ReflectKind D))
      \<and> (\<forall>e. fieldType w name = Inl e \<longrightarrow> err = e)"
    by (cases "fieldType w name") (auto simp: SetBuffer_def)
  have var: "\<exists>err. SetBufferVar w q name offset (GoSlice k elems) = (q, Inl err)
           \<and> (\<forall>D. fieldTypeVar w name = Inr D \<and> ReflectKind D = k \<longrightarrow>
                 err = (if elems = [] then EmptyBuffer else EmptyOffsets))
           \<and> (\<forall>D. fieldTypeVar w name = Inr D \<and> ReflectKind D \<noteq> k \<longrightarrow>
                 err = TypeMismatch k (ReflectKind D))
           \<and> (\<forall>e. fieldTypeVar w name = Inl e \<longrightarrow> err = e)"
    if "elems = [] \<or> offset = []"
    using that by (cases "fieldTypeVar w name") (auto simp: SetBufferVar_def Let_def)
  show ?thesis using fixed var by blast
qed

text \<open>
  An empty \<open>[]uint32\<close> for the attribute \<open>a\<close>, on both paths, and empty offsets;
  an empty \<open>[]int64\<close> and \<open>int64\<close> data with empty offsets for the same attribute;
  an empty \<open>[]uint32\<close> for the name \<open>b\<close>, which is no field.
\<close>

theorem empty_buffer_fails_witness:
  "fieldType exampleWorld ''a'' = Inr TILEDB_UINT32
   \<and> fieldTypeVar exampleWorld ''a'' = Inr TILEDB_UINT32
   \<and> fieldType exampleWorld ''b'' = Inl AttributeNotFound
   \<and> fieldTypeVar exampleWorld ''b'' = Inl AttributeNotFound
   \<and> SetBuffer exampleWorld NewQuery ''a'' (GoSlice KUint32 []) = (NewQuery, Inl EmptyBuffer)
   \<and> SetBufferVar exampleWorld NewQuery ''a'' [0] (GoSlice KUint32 []) = (NewQuery, Inl EmptyBuffer)
   \<and> SetBufferVar exampleWorld NewQuery ''a'' [] (GoSlice KUint32 [7]) = (NewQuery, Inl EmptyOffsets)
   \<and> SetBuffer exampleWorld NewQuery ''a'' (GoSlice KInt64 [])
       = (NewQuery, Inl (TypeMismatch KInt64 KUint32))
   \<and> SetBufferVar exampleWorld NewQuery ''a'' [] (GoSlice KInt64 [7])
       = (NewQuery, Inl (TypeMismatch KInt64 KUint32))
   \<and> SetBuffer exampleWorld NewQuery ''b'' (GoSlice KUint32 []) = (NewQuery, Inl AttributeNotFound)
   \<and> SetBufferVar exampleWorld NewQuery ''b'' [0] (GoSlice KUint32 [])
       = (NewQuery, Inl AttributeNotFound)"
proof -
  have t: "fieldType exampleWorld ''a'' = Inr TILEDB_UINT32"
    "fieldTypeVar exampleWorld ''a'' = Inr TILEDB_UINT32"
    "fieldType exampleWorld ''b'' = Inl AttributeNotFound"
    "fieldTypeVar exampleWorld ''b'' = Inl AttributeNotFound"
    by (simp_all add: field_defs example_defs)
  have k: "ReflectKind TILEDB_UINT32 = KUint32" "ReflectKind TILEDB_UINT32 \<noteq> KInt64"
    by simp_all
  show ?thesis
    using t k
      empty_buffer_fails [of exampleWorld NewQuery "''a''" KUint32 "[]" "[0]"]
      empty_buffer_fails [of exampleWorld NewQuery "''a''" KUint32 "[7]" "[]"]
      empty_buffer_fails [of exampleWorld NewQuery "''a''" KInt64 "[7]" "[]"]
      empty_buffer_fails [of exampleWorld NewQuery "''b''" KUint32 "[]" "[0]"]
    by auto
qed

subsection \<open>The resolution order\<close>

lemma fieldType_resolutionOrder:
  "(fieldType w name = Inr D) = (resolutionOrder w name = Some D)"
proof (cases "arraySchema w")
  case None
  then show ?thesis by (simp add: fieldType_def resolutionOrder_def)
next
  case (Some schema)
  note s = this
  show ?thesis
  proof (cases "schemaDomain schema")
    case None
    then show ?thesis using s by (simp add: fieldType_def resolutionOrder_def)
  next
    case (Some domain)
    then show ?thesis using s
      by (cases "hasDimension domain name")
        (auto simp: fieldType_def resolutionOrder_def dimensionOrAttributeType_def
           split: option.splits)
  qed
qed

lemma fieldType_error:
  "(\<exists>err. fieldType w name = Inl err) = (resolutionOrder w name = None)"
proof (cases "fieldType w name")
  case (Inl e)
  then have "\<And>D. resolutionOrder w name \<noteq> Some D"
    using fieldType_resolutionOrder [of w name] by simp
  then show ?thesis using Inl by (cases "resolutionOrder w name") auto
next
  case (Inr D)
  then show ?thesis using fieldType_resolutionOrder [of w name D] by simp
qed

lemma SetBuffer_succeeds_kind:
  assumes "SetBuffer w q name buffer = (q', Inr bufferSize)"
  shows "\<exists>D elems. fieldType w name = Inr D \<and> buffer = GoSlice (ReflectKind D) elems"
  using assms
  by (auto simp: SetBuffer_def Let_def split: GoValue.splits sum.splits if_splits option.splits)

lemma Buffer_succeeds_kind:
  assumes "Buffer w q name = Inr view"
  shows "\<exists>D n. fieldType w name = Inr D \<and> bufferSizePtr w name = Some n
           \<and> view = \<lparr>viewKind = fst (Buffer_type D), viewLength = n div snd (Buffer_type D)\<rparr>"
  using assms
  by (auto simp: Buffer_def Let_def split: sum.splits if_splits option.splits)

text \<open>
  Claim C7. The datatype that \<open>SetBuffer\<close> and \<open>Buffer\<close> give a field name is the
  one of the resolution order: for the coordinate name the type of the domain, whatever
  the dimensions and attributes are; for any other name that the domain has as a
  dimension the type of that dimension, whatever the attributes are; for a name that is no
  dimension the type of the attribute of that name. \<open>SetBuffer\<close> succeeds only on a
  slice of the kind of that datatype, \<open>Buffer\<close> returns a view of the element type and
  width of that datatype, and for a name that the order does not resolve both return an
  error of the lookup.
\<close>

theorem resolution_order:
  "(fieldType w name = Inr D) = (resolutionOrder w name = Some D)
   \<and> (name = TILEDB_COORDS w \<and> arraySchema w = Some schema \<and> schemaDomain schema = Some domain
      \<longrightarrow> resolutionOrder w name = domainType domain)
   \<and> (name \<noteq> TILEDB_COORDS w \<and> arraySchema w = Some schema \<and> schemaDomain schema = Some domain
        \<and> hasDimension domain name = Some True
      \<longrightarrow> resolutionOrder w name = Option.bind (dimensionFromName domain name) dimensionType)
   \<and> (name \<noteq> TILEDB_COORDS w \<and> arraySchema w = Some schema \<and> schemaDomain schema = Some domain
        \<and> hasDimension domain name = Some False
      \<longrightarrow> resolutionOrder w name = Option.bind (attributeFromName schema name) attributeType)
   \<and> (SetBuffer w q name buffer = (q', Inr bufferSize) \<longrightarrow>
        (\<exists>D elems. resolutionOrder w name = Some D \<and> buffer = GoSlice (ReflectKind D) elems))
   \<and> (Buffer w q name = Inr view \<longrightarrow>
        (\<exists>D n. resolutionOrder w name = Some D \<and> bufferSizePtr w name = Some n
           \<and> view = \<lparr>viewKind = fst (Buffer_type D), viewLength = n div snd (Buffer_type D)\<rparr>))
   \<and> (resolutionOrder w name = None \<longrightarrow>
        (\<exists>err. SetBuffer w q name buffer = (q, Inl err) \<and> err \<noteq> Panic \<and> err \<noteq> EngineFailure)
        \<and> (\<exists>err. Buffer w q name = Inl err \<and> err \<noteq> Panic \<and> err \<noteq> EngineFailure))"
proof -
  have c1: "name = TILEDB_COORDS w \<and> arraySchema w = Some schema \<and> schemaDomain schema = Some domain
      \<longrightarrow> resolutionOrder w name = domainType domain"
    by (simp add: resolutionOrder_def)
  have c2: "name \<noteq> TILEDB_COORDS w \<and> arraySchema w = Some schema \<and> schemaDomain schema = Some domain
        \<and> hasDimension domain name = Some True
      \<longrightarrow> resolutionOrder w name = Option.bind (dimensionFromName domain name) dimensionType"
    by (simp add: resolutionOrder_def)
  have c3: "name \<noteq> TILEDB_COORDS w \<and> arraySchema w = Some schema \<and> schemaDomain schema = Some domain
        \<and> hasDimension domain name = Some False
      \<longrightarrow> resolutionOrder w name = Option.bind (attributeFromName schema name) attributeType"
    by (simp add: resolutionOrder_def)
  have c4: "SetBuffer w q name buffer = (q', Inr bufferSize) \<longrightarrow>
        (\<exists>D elems. resolutionOrder w name = Some D \<and> buffer = GoSlice (ReflectKind D) elems)"
    using SetBuffer_succeeds_kind [of w q name buffer q' bufferSize]
    by (auto simp: fieldType_resolutionOrder)
  have c5: "Buffer w q name = Inr view \<longrightarrow>
        (\<exists>D n. resolutionOrder w name = Some D \<and> bufferSizePtr w name = Some n
           \<and> view = \<lparr>viewKind = fst (Buffer_type D), viewLength = n div snd (Buffer_type D)\<rparr>)"
    using Buffer_succeeds_kind [of w q name view]
    by (auto simp: fieldType_resolutionOrder)
  have c6: "(\<exists>err. SetBuffer w q name buffer = (q, Inl err) \<and> err \<noteq> Panic \<and> err \<noteq> EngineFailure)
        \<and> (\<exists>err. Buffer w q name = Inl err \<and> err \<noteq> Panic \<and> err \<noteq> EngineFailure)"
    if "resolutionOrder w name = None"
  proof -
    from that obtain e where e: "fieldType w name = Inl e"
      using fieldType_error [of w name] by blast
    have ne: "e \<noteq> Panic \<and> e \<noteq> EngineFailure"
      using e by (auto simp: field_defs split: option.splits if_splits)
    show ?thesis using e ne by (cases buffer) (auto simp: SetBuffer_def Buffer_def)
  qed
  show ?thesis using fieldType_resolutionOrder [of w name D] c1 c2 c3 c4 c5 c6 by blast
qed

text \<open>
  On the array whose accessors answer in more than one way, \<open>__coords\<close> is of the
  domain's type although it is a dimension and an attribute too, and \<open>d\<close> is of the
  dimension's type although it is an attribute too; on the quickstart array the name
  \<open>b\<close> matches nothing.
\<close>

theorem resolution_order_witness:
  "resolutionOrder conflictWorld ''__coords'' = Some TILEDB_INT32
   \<and> snd (SetBuffer conflictWorld NewQuery ''__coords'' (GoSlice KInt32 [1, 1, 2, 4])) = Inr 16
   \<and> resolutionOrder conflictWorld ''d'' = Some TILEDB_INT64
   \<and> Buffer conflictWorld NewQuery ''d'' = Inr \<lparr>viewKind = KInt64, viewLength = 2\<rparr>
   \<and> resolutionOrder conflictWorld ''e'' = Some TILEDB_FLOAT32
   \<and> snd (SetBuffer conflictWorld NewQuery ''e'' (GoSlice KFloat32 [0, 0])) = Inr 8
   \<and> resolutionOrder exampleWorld ''b'' = None
   \<and> SetBuffer exampleWorld NewQuery ''b'' (GoSlice KUint32 [1]) = (NewQuery, Inl AttributeNotFound)
   \<and> Buffer exampleWorld NewQuery ''b'' = Inl AttributeNotFound"
proof -
  have r: "resolutionOrder conflictWorld ''__coords'' = Some TILEDB_INT32"
    "resolutionOrder conflictWorld ''d'' = Some TILEDB_INT64"
    "resolutionOrder conflictWorld ''e'' = Some TILEDB_FLOAT32"
    "resolutionOrder exampleWorld ''b'' = None"
    by (simp_all add: resolutionOrder_def example_defs)
  have a: "SetBuffer conflictWorld NewQuery ''__coords'' (GoSlice KInt32 [1, 1, 2, 4]) =
      (fst (SetBuffer conflictWorld NewQuery ''__coords'' (GoSlice KInt32 [1, 1, 2, 4])), Inr 16)"
    by (simp add: SetBuffer_def field_defs example_defs Let_def)
  have b: "Buffer conflictWorld NewQuery ''d'' = Inr \<lparr>viewKind = KInt64, viewLength = 2\<rparr>"
    by (simp add: Buffer_def field_defs example_defs Let_def)
  have c: "SetBuffer conflictWorld NewQuery ''e'' (GoSlice KFloat32 [0, 0]) =
      (fst (SetBuffer conflictWorld NewQuery ''e'' (GoSlice KFloat32 [0, 0])), Inr 8)"
    by (simp add: SetBuffer_def field_defs example_defs Let_def)
  have d: "SetBuffer exampleWorld NewQuery ''b'' (GoSlice KUint32 [1]) = (NewQuery, Inl AttributeNotFound)"
    "Buffer exampleWorld NewQuery ''b'' = Inl AttributeNotFound"
    by (simp_all add: SetBuffer_def Buffer_def field_defs example_defs Let_def)
  have sa: "snd (SetBuffer conflictWorld NewQuery ''__coords'' (GoSlice KInt32 [1, 1, 2, 4])) = Inr 16"
    using a by (metis snd_conv)
  have sc: "snd (SetBuffer conflictWorld NewQuery ''e'' (GoSlice KFloat32 [0, 0])) = Inr 8"
    using c by (metis snd_conv)
  show ?thesis
    using r sa b sc d
      resolution_order [of conflictWorld "''__coords''" _ _ _ NewQuery "GoSlice KInt32 [1, 1, 2, 4]"
        "fst (SetBuffer conflictWorld NewQuery ''__coords'' (GoSlice KInt32 [1, 1, 2, 4]))" 16
        "\<lparr>viewKind = KInt64, viewLength = 2\<rparr>"]
    by simp
qed

subsection \<open>A null byte count\<close>

text \<open>
  Claim C8. When the field resolves and the engine call returns \<open>TILEDB_OK\<close> with a
  null byte-count pointer, \<open>BufferSize\<close> returns 0 and no error; \<open>BufferSizeVar\<close>
  returns 0 for each count whose pointer is null, and the quotient for the other.
\<close>

theorem null_size_is_zero:
  "(fieldType w name = Inr D \<and> engineOK w (tiledb_query_get_buffer name)
      \<and> bufferSizePtr w name = None
      \<longrightarrow> BufferSize w q name = Inr 0)
   \<and> (fieldType w name = Inr D \<and> engineOK w (tiledb_query_get_buffer_var name)
      \<and> bufferVarSizePtrs w name = (None, None)
      \<longrightarrow> BufferSizeVar w q name = Inr (0, 0))
   \<and> (fieldType w name = Inr D \<and> engineOK w (tiledb_query_get_buffer_var name)
      \<and> bufferVarSizePtrs w name = (None, Some n) \<and> Size w D \<noteq> 0
      \<longrightarrow> BufferSizeVar w q name = Inr (0, n div Size w D))
   \<and> (fieldType w name = Inr D \<and> engineOK w (tiledb_query_get_buffer_var name)
      \<and> bufferVarSizePtrs w name = (Some n, None) \<and> Size w TILEDB_UINT64 \<noteq> 0
      \<longrightarrow> BufferSizeVar w q name = Inr (n div Size w TILEDB_UINT64, 0))"
  by (simp add: BufferSize_def BufferSizeVar_def Let_def)

text \<open>
  The attribute \<open>a\<close> with an engine that hands back null pointers.
\<close>

theorem null_size_is_zero_witness:
  "fieldType nullSizeWorld ''a'' = Inr TILEDB_UINT32
   \<and> engineOK nullSizeWorld (tiledb_query_get_buffer ''a'')
   \<and> engineOK nullSizeWorld (tiledb_query_get_buffer_var ''a'')
   \<and> bufferSizePtr nullSizeWorld ''a'' = None
   \<and> bufferVarSizePtrs nullSizeWorld ''a'' = (None, None)
   \<and> BufferSize nullSizeWorld NewQuery ''a'' = Inr 0
   \<and> BufferSizeVar nullSizeWorld NewQuery ''a'' = Inr (0, 0)"
proof -
  have h: "fieldType nullSizeWorld ''a'' = Inr TILEDB_UINT32"
    "engineOK nullSizeWorld (tiledb_query_get_buffer ''a'')"
    "engineOK nullSizeWorld (tiledb_query_get_buffer_var ''a'')"
    "bufferSizePtr nullSizeWorld ''a'' = None"
    "bufferVarSizePtrs nullSizeWorld ''a'' = (None, None)"
    by (simp_all add: field_defs example_defs)
  show ?thesis
    using h null_size_is_zero [of nullSizeWorld "''a''" TILEDB_UINT32 NewQuery]
    by simp
qed

subsection \<open>Teardown\<close>

lemma Free_Free: "Free (Free q) = Free q"
  by (simp add: Free_def tiledb_query_free_def Let_def)

lemma Free_funpow: "(Free ^^ Suc n) q = Free q"
proof (induction n)
  case 0
  show ?case by simp
next
  case (Suc n)
  have "(Free ^^ Suc (Suc n)) q = Free ((Free ^^ Suc n) q)" by simp
  also have "\<dots> = Free (Free q)" by (simp only: Suc.IH)
  finally show ?case by (simp only: Free_Free)
qed

lemma Free_releases:
  "engineReleases (Free q) = (if tiledbQuery q then Suc (engineReleases q) else engineReleases q)"
  by (simp add: Free_def tiledb_query_free_def Let_def)

lemma Free_tables: "buffers (Free q) = [] \<and> resultBufferElements (Free q) = None \<and> \<not> tiledbQuery (Free q)"
  by (simp add: Free_def tiledb_query_free_def Let_def)

text \<open>
  Claim C9. \<open>Free\<close> is idempotent. It returns no error value at all; calling it any
  number of times, one or more, leaves the query in the state that the first call left it
  in, so the engine has released the handle at most once more than before the first call
  (exactly once if the handle was live, not at all if it was nil already), and the buffer
  table and the result-size table are cleared after the first call and after every later
  one.
\<close>

theorem Free_idempotent:
  "Free (Free q) = Free q
   \<and> (Free ^^ Suc n) q = Free q
   \<and> engineReleases ((Free ^^ Suc n) q) \<le> Suc (engineReleases q)
   \<and> engineReleases ((Free ^^ Suc n) q) = engineReleases q + of_bool (tiledbQuery q)
   \<and> buffers ((Free ^^ Suc n) q) = []
   \<and> resultBufferElements ((Free ^^ Suc n) q) = None
   \<and> \<not> tiledbQuery ((Free ^^ Suc n) q)"
proof -
  have f: "(Free ^^ Suc n) q = Free q" by (rule Free_funpow)
  show ?thesis
    unfolding f using Free_Free [of q] Free_releases [of q] Free_tables [of q] by simp
qed

text \<open>
  Three calls on a new query release its handle once.
\<close>

theorem Free_idempotent_witness:
  "tiledbQuery NewQuery
   \<and> engineReleases NewQuery = 0
   \<and> engineReleases (Free NewQuery) = 1
   \<and> Free (Free NewQuery) = Free NewQuery
   \<and> (Free ^^ Suc 2) NewQuery = Free NewQuery
   \<and> buffers ((Free ^^ Suc 2) NewQuery) = []
   \<and> resultBufferElements ((Free ^^ Suc 2) NewQuery) = None"
proof -
  have a: "tiledbQuery NewQuery" "engineReleases NewQuery = 0" by (simp_all add: NewQuery_def)
  have b: "engineReleases (Free NewQuery) = 1"
    by (simp add: Free_def tiledb_query_free_def NewQuery_def)
  show ?thesis using a b Free_idempotent [of NewQuery 2] by blast
qed

subsection \<open>GetRangeVar\<close>

text \<open>
  Claim C10. \<open>GetRangeVar\<close> returns what \<open>GetRange\<close> returns, for every query,
  dimension index and range index: the same pair of values, or the same error.
\<close>

theorem GetRangeVar_eq_GetRange:
  "GetRangeVar w q dimIdx rangeNum = GetRange w q dimIdx rangeNum"
  by (simp add: GetRangeVar_def)

text \<open>
  A scalar range and a byte range read back through both, and an index with no range.
\<close>

theorem GetRangeVar_eq_GetRange_witness:
  "GetRangeVar exampleWorld (fst (AddRange exampleWorld NewQuery 0 (GoScalar KInt32 1) (GoScalar KInt32 4))) 0 0
     = Inr (GoScalar KInt32 1, GoScalar KInt32 4)
   \<and> GetRange exampleWorld (fst (AddRange exampleWorld NewQuery 0 (GoScalar KInt32 1) (GoScalar KInt32 4))) 0 0
     = Inr (GoScalar KInt32 1, GoScalar KInt32 4)
   \<and> GetRangeVar stringWorld (fst (AddRangeVar stringWorld NewQuery 0 (GoSlice KUint8 [97]) (GoSlice KUint8 [99, 99]))) 0 0
     = Inr (GoSlice KUint8 [97], GoSlice KUint8 [99, 99])
   \<and> GetRangeVar exampleWorld NewQuery 0 0 = Inl EngineFailure"
proof -
  have a: "GetRange exampleWorld (fst (AddRange exampleWorld NewQuery 0 (GoScalar KInt32 1) (GoScalar KInt32 4))) 0 0
     = Inr (GoScalar KInt32 1, GoScalar KInt32 4)"
    by (simp add: GetRange_def AddRange_def range_defs readScalar_def example_defs)
  have b: "GetRange stringWorld (fst (AddRangeVar stringWorld NewQuery 0 (GoSlice KUint8 [97]) (GoSlice KUint8 [99, 99]))) 0 0
     = Inr (GoSlice KUint8 [97], GoSlice KUint8 [99, 99])"
    by (simp add: GetRange_def AddRangeVar_def range_defs example_defs Let_def)
  have c: "GetRange exampleWorld NewQuery 0 0 = Inl EngineFailure"
    by (simp add: GetRange_def range_defs example_defs)
  show ?thesis
    using a b c
      GetRangeVar_eq_GetRange [of exampleWorld
        "fst (AddRange exampleWorld NewQuery 0 (GoScalar KInt32 1) (GoScalar KInt32 4))" 0 0]
      GetRangeVar_eq_GetRange [of stringWorld
        "fst (AddRangeVar stringWorld NewQuery 0 (GoSlice KUint8 [97]) (GoSlice KUint8 [99, 99]))" 0 0]
      GetRangeVar_eq_GetRange [of exampleWorld NewQuery 0 0]
    by simp
qed

end
